theory Spec2Isabelle
  imports Complex_Main "HOL-Library.Multiset" "HOL-Library.Sublist"
begin

section \<open>Common values\<close>

text \<open>
  The helpers of \<^verbatim>\<open>feedback_custom_funtions.py\<close> compute on Python integers, on
  float arrays (numpy, torch) and on dictionaries. Python integers are \<open>int\<close>. A float is
  idealised as an exact \<open>real\<close> number, with one extra value \<open>NaN\<close> for the result that
  numpy and torch give where the real-valued expression is undefined (the mean of an empty
  array, the square root of a negative number). Rounding and overflow of floats are outside this
  model. A dictionary literal is an association list in the order the literal is written, since
  Python dictionaries keep insertion order.
\<close>

datatype error =
  KeyError | IndexError | AttributeError | TypeError | UnboundLocalError
  | ZeroDivisionError | RuntimeError

definition or_raise :: "error + 'a \<Rightarrow> ('a \<Rightarrow> error + 'b) \<Rightarrow> error + 'b" where
  "or_raise r f = (case r of Inl e \<Rightarrow> Inl e | Inr v \<Rightarrow> f v)"

datatype npfloat = Val real | NaN

fun np_sqrt :: "npfloat \<Rightarrow> npfloat" where
  "np_sqrt NaN = NaN"
| "np_sqrt (Val x) = (if x < 0 then NaN else Val (sqrt x))"

fun np_add :: "npfloat \<Rightarrow> npfloat \<Rightarrow> npfloat" where
  "np_add (Val a) (Val b) = Val (a + b)"
| "np_add _ _ = NaN"

definition np_sum :: "npfloat list \<Rightarrow> npfloat" where
  "np_sum xs = foldr np_add xs (Val 0)"

fun np_div_count :: "npfloat \<Rightarrow> nat \<Rightarrow> npfloat" where
  "np_div_count (Val a) n = (if n = 0 then NaN else Val (a / real n))"
| "np_div_count NaN n = NaN"

text \<open>The mean of no elements is \<open>0.0 / 0\<close>, which is NaN in numpy and in torch.\<close>

definition np_mean :: "npfloat list \<Rightarrow> npfloat" where
  "np_mean xs = np_div_count (np_sum xs) (length xs)"

text \<open>Python's \<^verbatim>\<open>s in n\<close> on strings: \<open>s\<close> occurs in \<open>n\<close> as a contiguous piece.\<close>

definition str_in :: "string \<Rightarrow> string \<Rightarrow> bool" where
  "str_in s n = sublist s n"


section \<open>Evaluation: \<^verbatim>\<open>compute_metrics\<close>\<close>

text \<open>
  A two-dimensional float array: its shape \<open>(N, C)\<close> and its \<open>N\<close> rows of \<open>C\<close> entries. The
  shape is kept beside the rows because an array with no rows still has a number of columns.
\<close>

record ndarray =
  shape :: "nat \<times> nat"
  rows :: "real list list"

definition wf_ndarray :: "ndarray \<Rightarrow> bool" where
  "wf_ndarray a =
     (length (rows a) = fst (shape a) \<and> list_all (\<lambda>r. length r = snd (shape a)) (rows a))"

text \<open>
  The object that the trainer's evaluation loop passes in. It holds the two arrays with
  identical shape, which \<open>wf_eval\<close> states. For arrays of different shapes numpy broadcasts
  or raises ValueError; that case is not modelled, and every property below assumes
  \<open>wf_eval\<close>.
\<close>

record eval_prediction =
  predictions :: ndarray
  label_ids :: ndarray

definition wf_eval :: "eval_prediction \<Rightarrow> bool" where
  "wf_eval p =
     (wf_ndarray (predictions p) \<and> wf_ndarray (label_ids p)
      \<and> shape (predictions p) = shape (label_ids p))"

text \<open>\<^verbatim>\<open>(labels - predictions) ** 2\<close>, elementwise.\<close>

definition squared_error :: "ndarray \<Rightarrow> ndarray \<Rightarrow> real list list" where
  "squared_error labels preds =
     map2 (\<lambda>lr pr. map2 (\<lambda>l p. (l - p)\<^sup>2) lr pr) (rows labels) (rows preds)"

definition column :: "real list list \<Rightarrow> nat \<Rightarrow> real list" where
  "column m j = map (\<lambda>r. r ! j) m"

text \<open>\<^verbatim>\<open>np.mean(m, axis=0)\<close> of an array with \<open>c\<close> columns: one mean for each column.\<close>

definition mean_axis0 :: "nat \<Rightarrow> real list list \<Rightarrow> npfloat list" where
  "mean_axis0 c m = map (\<lambda>j. np_mean (map Val (column m j))) [0..<c]"

text \<open>\<^verbatim>\<open>a[k]\<close> on a one-dimensional array, for the constant indices of the source.\<close>

definition item :: "npfloat list \<Rightarrow> nat \<Rightarrow> error + npfloat" where
  "item a k = (if k < length a then Inr (a ! k) else Inl IndexError)"

definition compute_metrics :: "eval_prediction \<Rightarrow> error + (string \<times> npfloat) list" where
  "compute_metrics p =
     (let preds = predictions p;
          labels = label_ids p;
          colwise_rmse = map np_sqrt (mean_axis0 (snd (shape labels)) (squared_error labels preds));
          mean_rmse = np_mean colwise_rmse
      in or_raise (item colwise_rmse 0) (\<lambda>c0.
         or_raise (item colwise_rmse 1) (\<lambda>c1.
         or_raise (item colwise_rmse 2) (\<lambda>c2.
         or_raise (item colwise_rmse 3) (\<lambda>c3.
         or_raise (item colwise_rmse 4) (\<lambda>c4.
         or_raise (item colwise_rmse 5) (\<lambda>c5.
           Inr [(''mcrmse'', mean_rmse),
                (''cohesion_rmse'', c0),
                (''syntax_rmse'', c1),
                (''vocabulary_rmse'', c2),
                (''phraseology_rmse'', c3),
                (''grammar_rmse'', c4),
                (''conventions_rmse'', c5)])))))))"

text \<open>The root of the mean squared error of column \<open>j\<close>, as a real number.\<close>

definition spec_column_rmse :: "eval_prediction \<Rightarrow> nat \<Rightarrow> real" where
  "spec_column_rmse p j =
     sqrt ((\<Sum>i<fst (shape (label_ids p)).
              (rows (label_ids p) ! i ! j - rows (predictions p) ! i ! j)\<^sup>2)
           / real (fst (shape (label_ids p))))"

text \<open>
  The value that belongs to column \<open>j\<close>: its root mean squared error, and NaN for arrays with
  no rows, whose column means are NaN.
\<close>

definition spec_column_metric :: "eval_prediction \<Rightarrow> nat \<Rightarrow> npfloat" where
  "spec_column_metric p j =
     (if fst (shape (label_ids p)) = 0 then NaN else Val (spec_column_rmse p j))"

subsection \<open>Example inputs\<close>

definition metrics_no_rows :: eval_prediction where
  "metrics_no_rows =
     \<lparr>predictions = \<lparr>shape = (0, 6), rows = []\<rparr>, label_ids = \<lparr>shape = (0, 6), rows = []\<rparr>\<rparr>"

definition metrics_shifted :: eval_prediction where
  "metrics_shifted =
     \<lparr>predictions = \<lparr>shape = (2, 6), rows = [[1, -2, 0, 0, 0, 0], [2, -1, 1, 1, 1, 1]]\<rparr>,
      label_ids = \<lparr>shape = (2, 6), rows = [[0, 0, 0, 0, 0, 0], [1, 1, 1, 1, 1, 1]]\<rparr>\<rparr>"

definition metrics_same :: eval_prediction where
  "metrics_same =
     \<lparr>predictions = \<lparr>shape = (1, 6), rows = [[3, 1, 4, 1, 5, 9]]\<rparr>,
      label_ids = \<lparr>shape = (1, 6), rows = [[3, 1, 4, 1, 5, 9]]\<rparr>\<rparr>"

definition metrics_five_columns :: eval_prediction where
  "metrics_five_columns =
     \<lparr>predictions = \<lparr>shape = (1, 5), rows = [[3, 1, 4, 1, 5]]\<rparr>,
      label_ids = \<lparr>shape = (1, 5), rows = [[3, 1, 4, 1, 6]]\<rparr>\<rparr>"

definition metrics_seven_columns :: eval_prediction where
  "metrics_seven_columns =
     \<lparr>predictions = \<lparr>shape = (1, 7), rows = [[3, 1, 4, 1, 5, 9, 2]]\<rparr>,
      label_ids = \<lparr>shape = (1, 7), rows = [[3, 1, 4, 1, 5, 9, 6]]\<rparr>\<rparr>"

definition shift_example :: "nat \<Rightarrow> real" where
  "shift_example j = (if j = 0 then 1 else if j = 1 then - 2 else 0)"


section \<open>Loss functions: \<^verbatim>\<open>RMSELoss\<close> and \<^verbatim>\<open>loss_fn\<close>\<close>

text \<open>
  A tensor of predictions or targets is modelled by the list of its elements: a one-dimensional
  float tensor. The result of a loss module is a zero-dimensional tensor (\<open>Scalar\<close>) after a
  \<^verbatim>\<open>sum\<close> or \<^verbatim>\<open>mean\<close>, and a tensor of the input's shape (\<open>Elementwise\<close>) otherwise.
\<close>

datatype loss_value = Scalar npfloat | Elementwise "npfloat list"

text \<open>
  The elementwise pairing that torch makes of two one-dimensional tensors: equal sizes pair
  up, a tensor of one element is broadcast, and other sizes raise RuntimeError.
\<close>

definition broadcast_pairs :: "real list \<Rightarrow> real list \<Rightarrow> error + (real \<times> real) list" where
  "broadcast_pairs a b =
     (if length a = length b then Inr (zip a b)
      else if length a = 1 then Inr (map (\<lambda>y. (hd a, y)) b)
      else if length b = 1 then Inr (map (\<lambda>x. (x, hd b)) a)
      else Inl RuntimeError)"

text \<open>\<^verbatim>\<open>nn.MSELoss(reduction='none')\<close>: the squared error of each element.\<close>

definition mse_none :: "real list \<Rightarrow> real list \<Rightarrow> error + real list" where
  "mse_none input target =
     or_raise (broadcast_pairs input target) (\<lambda>ps. Inr (map (\<lambda>(x, y). (x - y)\<^sup>2) ps))"

record rmse_loss =
  reduction :: string
  eps :: real

text \<open>The constructor; its defaults are \<^verbatim>\<open>reduction='mean'\<close> and \<^verbatim>\<open>eps=1e-9\<close>.\<close>

definition RMSELoss :: "string \<Rightarrow> real \<Rightarrow> rmse_loss" where
  "RMSELoss r e = \<lparr>reduction = r, eps = e\<rparr>"

definition RMSELoss_default :: rmse_loss where
  "RMSELoss_default = RMSELoss ''mean'' (1 / 10 ^ 9)"

definition forward :: "rmse_loss \<Rightarrow> real list \<Rightarrow> real list \<Rightarrow> error + loss_value" where
  "forward self preds targets =
     or_raise (mse_none preds targets) (\<lambda>sq.
       let loss = map (\<lambda>x. np_sqrt (Val (x + eps self))) sq
       in if reduction self = ''none'' then Inr (Elementwise loss)
          else if reduction self = ''sum'' then Inr (Scalar (np_sum loss))
          else if reduction self = ''mean'' then Inr (Scalar (np_mean loss))
          else Inr (Elementwise loss))"

text \<open>\<^verbatim>\<open>nn.MSELoss()\<close> and \<^verbatim>\<open>nn.SmoothL1Loss()\<close> of the framework, with their default mean
  reduction (and \<^verbatim>\<open>beta = 1.0\<close>).\<close>

definition MSELoss :: "real list \<Rightarrow> real list \<Rightarrow> error + loss_value" where
  "MSELoss input target =
     or_raise (mse_none input target) (\<lambda>sq. Inr (Scalar (np_mean (map Val sq))))"

definition smooth_l1 :: "real \<Rightarrow> real \<Rightarrow> real" where
  "smooth_l1 x y = (if \<bar>x - y\<bar> < 1 then (x - y)\<^sup>2 / 2 else \<bar>x - y\<bar> - 1 / 2)"

definition SmoothL1Loss :: "real list \<Rightarrow> real list \<Rightarrow> error + loss_value" where
  "SmoothL1Loss input target =
     or_raise (broadcast_pairs input target) (\<lambda>ps.
       Inr (Scalar (np_mean (map (\<lambda>(x, y). Val (smooth_l1 x y)) ps))))"

text \<open>
  \<^verbatim>\<open>loss_fn\<close>. The \<^verbatim>\<open>if\<close>/\<^verbatim>\<open>elif\<close> chain has no \<^verbatim>\<open>else\<close>: with any other selector the local
  \<^verbatim>\<open>loss_func\<close> is never bound, and the \<^verbatim>\<open>return\<close> statement raises UnboundLocalError when it
  reads \<^verbatim>\<open>loss_func\<close>, before the arguments are evaluated. The casts \<^verbatim>\<open>.float()\<close> are the
  identity on idealised floats.
\<close>

definition loss_fn :: "real list \<Rightarrow> real list \<Rightarrow> string \<Rightarrow> error + loss_value" where
  "loss_fn outputs labels loss_type =
     (if loss_type = ''mse'' then MSELoss outputs labels
      else if loss_type = ''rmse'' then forward RMSELoss_default outputs labels
      else if loss_type = ''smooth_l1'' then SmoothL1Loss outputs labels
      else Inl UnboundLocalError)"

text \<open>Comparison with zero, as floats compare: NaN is not \<open>\<ge> 0\<close>.\<close>

fun np_nonneg :: "npfloat \<Rightarrow> bool" where
  "np_nonneg (Val x) = (0 \<le> x)"
| "np_nonneg NaN = False"

fun loss_nonneg :: "loss_value \<Rightarrow> bool" where
  "loss_nonneg (Scalar v) = np_nonneg v"
| "loss_nonneg (Elementwise vs) = list_all np_nonneg vs"

text \<open>The root of the squared error plus epsilon, of one element.\<close>

definition spec_rmse_elem :: "real \<Rightarrow> real \<Rightarrow> real \<Rightarrow> real" where
  "spec_rmse_elem e x y = sqrt ((x - y)\<^sup>2 + e)"


section \<open>Optimizer: parameter groups and schedule\<close>

subsection \<open>The model collaborator\<close>

text \<open>
  The model is a tree of torch modules. A parameter is identified by a number (the identity of
  its tensor), so one parameter registered in two places has the same number twice. A module
  holds its own parameters by name (\<^verbatim>\<open>_parameters\<close>) and its submodules by name
  (\<^verbatim>\<open>_modules\<close>), both in registration order. An \<^verbatim>\<open>nn.ModuleList\<close> holds submodules only, named
  by their position.
\<close>

type_synonym param = nat

datatype module =
  Module "(string \<times> param) list" "(string \<times> module) list"
  | ModuleList "module list"

text \<open>\<^verbatim>\<open>str(i)\<close> of a position in a module list.\<close>

fun str_nat :: "nat \<Rightarrow> string" where
  "str_nat n =
     (if n < 10 then [''0123456789'' ! n] else str_nat (n div 10) @ [''0123456789'' ! (n mod 10)])"

declare str_nat.simps [simp del]

text \<open>\<^verbatim>\<open>prefix + ('.' if prefix else '') + name\<close>, the way torch builds qualified names.\<close>

definition qualname :: "string \<Rightarrow> string \<Rightarrow> string" where
  "qualname pre k = pre @ (if pre = [] then [] else ''.'') @ k"

text \<open>
  All named parameters below a module, in the order of torch's traversal: the module's own
  parameters, then each submodule in turn, each name qualified by the path to it.
\<close>

fun named_members :: "string \<Rightarrow> module \<Rightarrow> (string \<times> param) list"
  and named_members_modules :: "string \<Rightarrow> (string \<times> module) list \<Rightarrow> (string \<times> param) list"
  and named_members_items :: "string \<Rightarrow> nat \<Rightarrow> module list \<Rightarrow> (string \<times> param) list"
where
  "named_members pre (Module ps ms) =
     map (\<lambda>(k, v). (qualname pre k, v)) ps @ named_members_modules pre ms"
| "named_members pre (ModuleList ls) = named_members_items pre 0 ls"
| "named_members_modules pre [] = []"
| "named_members_modules pre ((k, m) # ms) =
     named_members (qualname pre k) m @ named_members_modules pre ms"
| "named_members_items pre i [] = []"
| "named_members_items pre i (m # ls) =
     named_members (qualname pre (str_nat i)) m @ named_members_items pre (Suc i) ls"

text \<open>torch yields a parameter once, under the first name it is met with.\<close>

fun remove_duplicate :: "param set \<Rightarrow> (string \<times> param) list \<Rightarrow> (string \<times> param) list" where
  "remove_duplicate memo [] = []"
| "remove_duplicate memo ((n, p) # xs) =
     (if p \<in> memo then remove_duplicate memo xs
      else (n, p) # remove_duplicate (insert p memo) xs)"

definition named_parameters :: "module \<Rightarrow> (string \<times> param) list" where
  "named_parameters m = remove_duplicate {} (named_members [] m)"

text \<open>
  Attribute access \<^verbatim>\<open>m.k\<close> for a submodule, and \<^verbatim>\<open>list(m)\<close>. torch does not let a parameter and
  a submodule of one module share a name, so a submodule is looked up among the submodules.
\<close>

fun getattr :: "module \<Rightarrow> string \<Rightarrow> error + module" where
  "getattr (Module ps ms) k =
     (case map_of ms k of None \<Rightarrow> Inl AttributeError | Some m \<Rightarrow> Inr m)"
| "getattr (ModuleList ls) k = Inl AttributeError"

fun list_of :: "module \<Rightarrow> error + module list" where
  "list_of (ModuleList ls) = Inr ls"
| "list_of (Module ps ms) = Inl TypeError"

subsection \<open>\<^verbatim>\<open>get_optimizer_grouped_parameters\<close>\<close>

text \<open>
  A group dictionary with the keys \<^verbatim>\<open>params\<close>, \<^verbatim>\<open>weight_decay\<close> and \<^verbatim>\<open>lr\<close>; the groups that
  \<^verbatim>\<open>optimizer_setup\<close> builds itself have no \<^verbatim>\<open>lr\<close> key.
\<close>

record param_group =
  params :: "param list"
  weight_decay :: real
  lr :: "real option"

definition no_decay :: "string list" where
  "no_decay = [''bias'', ''LayerNorm.weight'']"

text \<open>\<^verbatim>\<open>any(nd in n for nd in no_decay)\<close>\<close>

definition any_no_decay :: "string \<Rightarrow> bool" where
  "any_no_decay n = list_ex (\<lambda>nd. str_in nd n) no_decay"

definition decay_params :: "(string \<times> param) list \<Rightarrow> param list" where
  "decay_params nps = map snd (filter (\<lambda>(n, p). \<not> any_no_decay n) nps)"

definition no_decay_params :: "(string \<times> param) list \<Rightarrow> param list" where
  "no_decay_params nps = map snd (filter (\<lambda>(n, p). any_no_decay n) nps)"

text \<open>The loop over the layers: two groups for each layer, then the rate is multiplied.\<close>

fun layer_groups :: "module list \<Rightarrow> real \<Rightarrow> real \<Rightarrow> real \<Rightarrow> param_group list" where
  "layer_groups [] lr0 layerwise_weight_decay layerwise_lr_decay = []"
| "layer_groups (layer # layers) lr0 layerwise_weight_decay layerwise_lr_decay =
     [\<lparr>params = decay_params (named_parameters layer),
       weight_decay = layerwise_weight_decay, lr = Some lr0\<rparr>,
      \<lparr>params = no_decay_params (named_parameters layer),
       weight_decay = 0, lr = Some lr0\<rparr>]
     @ layer_groups layers (lr0 * layerwise_lr_decay) layerwise_weight_decay layerwise_lr_decay"

definition extra_params :: "module \<Rightarrow> (string \<times> param) list" where
  "extra_params model =
     filter (\<lambda>(n, p). str_in ''model'' n \<and> \<not> str_in ''model.embeddings'' n
                      \<and> \<not> str_in ''model.encoder.layer'' n)
       (named_parameters model)"

text \<open>The parameters of a list of layers, layer by layer.\<close>

definition layer_params :: "module list \<Rightarrow> param list" where
  "layer_params layers = concat (map (\<lambda>l. map snd (named_parameters l)) layers)"

text \<open>
  \<^verbatim>\<open>[model.model.embeddings] + list(model.model.encoder.layer)\<close>, reversed: the last encoder
  layer first, the embedding block last.
\<close>

definition reversed_layers :: "module \<Rightarrow> error + module list" where
  "reversed_layers model =
     or_raise (getattr model ''model'') (\<lambda>backbone.
     or_raise (getattr backbone ''embeddings'') (\<lambda>embeddings.
     or_raise (getattr model ''model'') (\<lambda>backbone2.
     or_raise (getattr backbone2 ''encoder'') (\<lambda>encoder.
     or_raise (getattr encoder ''layer'') (\<lambda>layer.
     or_raise (list_of layer) (\<lambda>ls. Inr (rev ([embeddings] @ ls))))))))"

definition get_optimizer_grouped_parameters ::
  "module \<Rightarrow> real \<Rightarrow> real \<Rightarrow> real \<Rightarrow> real \<Rightarrow> error + param_group list" where
  "get_optimizer_grouped_parameters model layerwise_lr decoder_lr layerwise_weight_decay
       layerwise_lr_decay =
     (let optimizer_grouped_parameters =
            [\<lparr>params = map snd (filter (\<lambda>(n, p). \<not> str_in ''model'' n) (named_parameters model)),
              weight_decay = 0, lr = Some decoder_lr\<rparr>]
            @ [\<lparr>params = decay_params (extra_params model),
                weight_decay = layerwise_weight_decay, lr = Some layerwise_lr\<rparr>]
            @ [\<lparr>params = no_decay_params (extra_params model),
                weight_decay = 0, lr = Some layerwise_lr\<rparr>]
      in or_raise (reversed_layers model) (\<lambda>layers.
           Inr (optimizer_grouped_parameters
                @ layer_groups layers layerwise_lr layerwise_weight_decay layerwise_lr_decay)))"

subsection \<open>\<^verbatim>\<open>optimizer_setup\<close>\<close>

text \<open>
  The configuration dictionary, with the keys that \<^verbatim>\<open>optimizer_setup\<close> reads. The optimizer
  and the scheduler of the framework are parameters of the model of \<^verbatim>\<open>optimizer_setup\<close>:
  \<open>AdamW groups lr correct_bias\<close> may refuse its arguments, and
  \<open>get_linear_schedule_with_warmup optimizer num_warmup_steps num_training_steps\<close> builds the
  schedule.
\<close>

record config =
  learning_rate :: real
  decoder_lr :: real
  config_weight_decay :: real
  epochs :: int
  train_batch_size :: int
  n_accumulate :: int

text \<open>Python's \<^verbatim>\<open>//\<close> on integers: the floor of the quotient, ZeroDivisionError for divisor 0.\<close>

definition floordiv :: "int \<Rightarrow> int \<Rightarrow> error + int" where
  "floordiv a b = (if b = 0 then Inl ZeroDivisionError else Inr (a div b))"

text \<open>The parameter groups that \<^verbatim>\<open>optimizer_setup\<close> passes to the optimizer (its first branch).\<close>

definition optimizer_parameters :: "module \<Rightarrow> config \<Rightarrow> bool \<Rightarrow> error + param_group list" where
  "optimizer_parameters model cfg layerwise =
     (if layerwise
      then get_optimizer_grouped_parameters model (learning_rate cfg) (decoder_lr cfg)
             (config_weight_decay cfg) (9 / 10)
      else let param_optimizer = named_parameters model
           in Inr [\<lparr>params = decay_params param_optimizer,
                    weight_decay = config_weight_decay cfg, lr = None\<rparr>,
                   \<lparr>params = no_decay_params param_optimizer,
                    weight_decay = 0, lr = None\<rparr>])"

definition optimizer_setup ::
  "(param_group list \<Rightarrow> real \<Rightarrow> bool \<Rightarrow> error + 'opt) \<Rightarrow> ('opt \<Rightarrow> real \<Rightarrow> int \<Rightarrow> 'sch)
   \<Rightarrow> module \<Rightarrow> config \<Rightarrow> int \<Rightarrow> bool \<Rightarrow> error + ('opt \<times> 'sch)" where
  "optimizer_setup AdamW get_linear_schedule_with_warmup model cfg train_dataset_size layerwise =
     or_raise (optimizer_parameters model cfg layerwise) (\<lambda>groups.
     or_raise (AdamW groups (learning_rate cfg) True) (\<lambda>optimizer.
     or_raise (floordiv (train_dataset_size * epochs cfg)
                 (train_batch_size cfg * n_accumulate cfg)) (\<lambda>num_training_steps.
       Inr (optimizer,
            get_linear_schedule_with_warmup optimizer
              (1 / 10 * real_of_int num_training_steps) num_training_steps))))"

text \<open>The number of steps as the specification words it: the floor of the real quotient.\<close>

definition spec_total_steps :: "int \<Rightarrow> int \<Rightarrow> int \<Rightarrow> int \<Rightarrow> int" where
  "spec_total_steps dataset_size n_epochs batch_size accumulation_steps =
     \<lfloor>real_of_int (n_epochs * dataset_size) / real_of_int (batch_size * accumulation_steps)\<rfloor>"


subsection \<open>Example models\<close>

text \<open>
  A small model with the layout of a DeBERTa backbone under the attribute \<^verbatim>\<open>model\<close> (an
  embedding block, two encoder layers, and two further encoder parameters) and a head \<^verbatim>\<open>fc\<close>.
\<close>

definition example_layer :: "param \<Rightarrow> module" where
  "example_layer k =
     Module [] [(''attention'', Module [(''weight'', k), (''bias'', k + 1)] []),
                (''LayerNorm'', Module [(''weight'', k + 2), (''bias'', k + 3)] [])]"

definition example_embeddings :: module where
  "example_embeddings =
     Module [] [(''word_embeddings'', Module [(''weight'', 0)] []),
                (''LayerNorm'', Module [(''weight'', 1), (''bias'', 2)] [])]"

definition example_encoder :: module where
  "example_encoder =
     Module [] [(''layer'', ModuleList [example_layer 3, example_layer 7]),
                (''rel_embeddings'', Module [(''weight'', 11)] []),
                (''LayerNorm'', Module [(''weight'', 12), (''bias'', 13)] [])]"

definition deberta_like :: module where
  "deberta_like =
     Module [] [(''model'', Module [] [(''embeddings'', example_embeddings),
                                       (''encoder'', example_encoder)]),
                (''fc'', Module [(''weight'', 14), (''bias'', 15)] [])]"

text \<open>
  The same model with one more block in the backbone, named as the projection of ELECTRA's
  embeddings is: its parameter names start with \<^verbatim>\<open>model.embeddings_project\<close>.
\<close>

definition electra_like :: module where
  "electra_like =
     Module [] [(''model'', Module [] [(''embeddings'', example_embeddings),
                                       (''embeddings_project'',
                                          Module [(''weight'', 16), (''bias'', 17)] []),
                                       (''encoder'', example_encoder)]),
                (''fc'', Module [(''weight'', 14), (''bias'', 15)] [])]"

text \<open>
  Stand-ins for the collaborators of \<^verbatim>\<open>optimizer_setup\<close> that record the arguments they are
  called with, and a configuration.
\<close>

record recorded_optimizer =
  param_groups :: "param_group list"
  default_lr :: real
  correct_bias :: bool

record recorded_schedule =
  num_warmup_steps :: real
  num_training_steps :: int

definition recording_AdamW :: "param_group list \<Rightarrow> real \<Rightarrow> bool \<Rightarrow> error + recorded_optimizer" where
  "recording_AdamW groups rate cb = Inr \<lparr>param_groups = groups, default_lr = rate, correct_bias = cb\<rparr>"

definition recording_schedule :: "recorded_optimizer \<Rightarrow> real \<Rightarrow> int \<Rightarrow> recorded_schedule" where
  "recording_schedule optimizer warmup steps =
     \<lparr>num_warmup_steps = warmup, num_training_steps = steps\<rparr>"

definition example_config :: config where
  "example_config =
     \<lparr>learning_rate = 1 / 50000, decoder_lr = 1 / 1000, config_weight_decay = 1 / 100,
      epochs = 3, train_batch_size = 10, n_accumulate = 2\<rparr>"


section \<open>Dataset: \<^verbatim>\<open>FeedBackDataset\<close>\<close>

text \<open>
  The table is a pandas data frame: named columns, each with one cell for every row. A cell is
  a text or a number. \<^verbatim>\<open>df[name].values\<close> is the column, \<^verbatim>\<open>df[names].values\<close> is the array of
  rows over the named columns; a name that is not a column raises KeyError, and so does
  \<^verbatim>\<open>df[None]\<close>. The column labels of the table are distinct, which \<open>wf_dataframe\<close> states:
  pandas also accepts a table with one label on several columns and then selects all of
  them for it, and that case is not modelled.
\<close>

datatype cell = Str string | Num real

record dataframe =
  n_rows :: nat
  columns :: "(string \<times> cell list) list"

definition wf_dataframe :: "dataframe \<Rightarrow> bool" where
  "wf_dataframe d =
     (distinct (map fst (columns d))
      \<and> list_all (\<lambda>(k, col). length col = n_rows d) (columns d))"

definition df_column :: "dataframe \<Rightarrow> string \<Rightarrow> error + cell list" where
  "df_column d k = (case map_of (columns d) k of None \<Rightarrow> Inl KeyError | Some col \<Rightarrow> Inr col)"

fun df_columns :: "dataframe \<Rightarrow> string list \<Rightarrow> error + cell list list" where
  "df_columns d [] = Inr []"
| "df_columns d (k # ks) =
     or_raise (df_column d k) (\<lambda>col. or_raise (df_columns d ks) (\<lambda>cols. Inr (col # cols)))"

definition df_values :: "dataframe \<Rightarrow> string list option \<Rightarrow> error + cell list list" where
  "df_values d target_label =
     (case target_label of
        None \<Rightarrow> Inl KeyError
      | Some ks \<Rightarrow>
          or_raise (df_columns d ks) (\<lambda>cols.
            Inr (map (\<lambda>i. map (\<lambda>col. col ! i) cols) [0..<n_rows d])))"

text \<open>
  The tokenizer collaborator: \<^verbatim>\<open>encode_plus(text, truncation=True, add_special_tokens=True,
  max_length=n)\<close> gives the token ids and the attention mask, or raises.
\<close>

type_synonym tokenizer = "cell \<Rightarrow> nat \<Rightarrow> error + (nat list \<times> nat list)"

text \<open>The dataset object. The attribute \<^verbatim>\<open>targets\<close> exists only after a construction in
  training mode.\<close>

record feedback_dataset =
  df :: dataframe
  max_len :: nat
  tokenizer :: tokenizer
  texts :: "cell list"
  train_mode :: bool
  targets :: "cell list list option"

definition FeedBackDataset ::
  "dataframe \<Rightarrow> tokenizer \<Rightarrow> nat \<Rightarrow> string list option \<Rightarrow> bool \<Rightarrow> error + feedback_dataset" where
  "FeedBackDataset d tok max_length target_label tm =
     or_raise (df_column d ''full_text'') (\<lambda>txts.
       if tm
       then or_raise (df_values d target_label) (\<lambda>tg.
              Inr \<lparr>df = d, max_len = max_length, tokenizer = tok, texts = txts,
                   train_mode = tm, targets = Some tg\<rparr>)
       else Inr \<lparr>df = d, max_len = max_length, tokenizer = tok, texts = txts,
                 train_mode = tm, targets = None\<rparr>)"

definition len_dataset :: "feedback_dataset \<Rightarrow> nat" where
  "len_dataset self = n_rows (df self)"

text \<open>\<^verbatim>\<open>a[index]\<close> on the first axis of a numpy array: a negative index counts from the end.\<close>

definition np_getitem :: "'a list \<Rightarrow> int \<Rightarrow> error + 'a" where
  "np_getitem a i =
     (let n = int (length a); j = (if i < 0 then i + n else i)
      in if 0 \<le> j \<and> j < n then Inr (a ! nat j) else Inl IndexError)"

text \<open>The values of the example dictionary: a list of integers, or a row of the targets.\<close>

datatype field = Ints "nat list" | Row "cell list"

definition getitem :: "feedback_dataset \<Rightarrow> int \<Rightarrow> error + (string \<times> field) list" where
  "getitem self index =
     or_raise (np_getitem (texts self) index) (\<lambda>text.
     or_raise (tokenizer self text (max_len self)) (\<lambda>inputs.
       if train_mode self
       then or_raise (case targets self of None \<Rightarrow> Inl AttributeError
                      | Some tg \<Rightarrow> np_getitem tg index) (\<lambda>target.
              Inr [(''input_ids'', Ints (fst inputs)),
                   (''attention_mask'', Ints (snd inputs)),
                   (''target'', Row target)])
       else Inr [(''input_ids'', Ints (fst inputs)),
                 (''attention_mask'', Ints (snd inputs))]))"

subsection \<open>Example table\<close>

definition target_columns :: "string list" where
  "target_columns =
     [''cohesion'', ''syntax'', ''vocabulary'', ''phraseology'', ''grammar'', ''conventions'']"

definition example_dataframe :: dataframe where
  "example_dataframe =
     \<lparr>n_rows = 2,
      columns = [(''text_id'', [Str ''a1'', Str ''b2'']),
                 (''full_text'', [Str ''I think'', Str ''We went'']),
                 (''cohesion'', [Num 3, Num 4]), (''syntax'', [Num 3, Num (7 / 2)]),
                 (''vocabulary'', [Num (5 / 2), Num 4]), (''phraseology'', [Num 3, Num 3]),
                 (''grammar'', [Num 4, Num 2]), (''conventions'', [Num 3, Num (9 / 2)])]\<rparr>"

text \<open>A stand-in tokenizer: one token for each character between two special tokens, cut to the
  maximum length.\<close>

definition example_tokenizer :: tokenizer where
  "example_tokenizer text n =
     (case text of
        Str s \<Rightarrow> Inr (take n ([101] @ map of_char s @ [102]),
                      take n (replicate (length s + 2) 1))
      | Num x \<Rightarrow> Inl TypeError)"


section \<open>Properties of \<^verbatim>\<open>compute_metrics\<close>\<close>

lemma np_sum_Val: "np_sum (map Val xs) = Val (sum_list xs)"
  by (induction xs) (simp_all add: np_sum_def)

lemma np_mean_Val:
  "np_mean (map Val xs) = (if xs = [] then NaN else Val (sum_list xs / real (length xs)))"
  by (simp add: np_mean_def np_sum_Val)

lemma length_squared_error:
  "length (rows l) = length (rows p) \<Longrightarrow> length (squared_error l p) = length (rows l)"
  by (simp add: squared_error_def)

lemma column_squared_error:
  assumes "wf_ndarray l" "wf_ndarray p" "shape p = shape l" "j < snd (shape l)"
  shows "column (squared_error l p) j
         = map (\<lambda>i. (rows l ! i ! j - rows p ! i ! j)\<^sup>2) [0..<fst (shape l)]"
proof (rule nth_equalityI)
  show "length (column (squared_error l p) j)
        = length (map (\<lambda>i. (rows l ! i ! j - rows p ! i ! j)\<^sup>2) [0..<fst (shape l)])"
    using assms by (simp add: column_def squared_error_def wf_ndarray_def)
next
  fix i assume "i < length (column (squared_error l p) j)"
  then have i: "i < fst (shape l)" "i < length (rows l)" "i < length (rows p)"
    using assms by (simp_all add: column_def squared_error_def wf_ndarray_def)
  have "length (rows l ! i) = snd (shape l)" "length (rows p ! i) = snd (shape l)"
    using assms i by (simp_all add: wf_ndarray_def list_all_length)
  then show "column (squared_error l p) j ! i
        = map (\<lambda>i. (rows l ! i ! j - rows p ! i ! j)\<^sup>2) [0..<fst (shape l)] ! i"
    using i assms(4) by (simp add: column_def squared_error_def)
qed

lemma colwise_rmse_eq:
  assumes "wf_eval p" "j < snd (shape (label_ids p))" "0 < fst (shape (label_ids p))"
  shows "np_sqrt (np_mean (map Val (column (squared_error (label_ids p) (predictions p)) j)))
         = Val (spec_column_rmse p j)"
proof -
  have c: "column (squared_error (label_ids p) (predictions p)) j
        = map (\<lambda>i. (rows (label_ids p) ! i ! j - rows (predictions p) ! i ! j)\<^sup>2)
            [0..<fst (shape (label_ids p))]"
    using assms by (intro column_squared_error) (simp_all add: wf_eval_def)
  have s: "sum_list (map (\<lambda>i. (rows (label_ids p) ! i ! j - rows (predictions p) ! i ! j)\<^sup>2)
            [0..<fst (shape (label_ids p))])
        = (\<Sum>i<fst (shape (label_ids p)).
              (rows (label_ids p) ! i ! j - rows (predictions p) ! i ! j)\<^sup>2)"
    by (simp add: interv_sum_list_conv_sum_set_nat atLeast0LessThan)
  have nonneg: "0 \<le> (\<Sum>i<fst (shape (label_ids p)).
              (rows (label_ids p) ! i ! j - rows (predictions p) ! i ! j)\<^sup>2)
           / real (fst (shape (label_ids p)))"
    by (intro divide_nonneg_nonneg sum_nonneg) simp_all
  show ?thesis
    unfolding c np_mean_Val s using assms(3) nonneg
    by (simp add: spec_column_rmse_def)
qed

lemma upt_6: "[0..<6] = [0, 1, 2, 3, 4, 5::nat]"
  by (simp add: upt_rec)

lemma colwise_rmse_list:
  assumes "wf_eval p" "0 < fst (shape (label_ids p))"
  shows "map np_sqrt (mean_axis0 (snd (shape (label_ids p)))
             (squared_error (label_ids p) (predictions p)))
         = map (\<lambda>j. Val (spec_column_rmse p j)) [0..<snd (shape (label_ids p))]"
  using assms by (simp add: mean_axis0_def colwise_rmse_eq)

lemma compute_metrics_of_colwise:
  assumes "map np_sqrt (mean_axis0 (snd (shape (label_ids p)))
             (squared_error (label_ids p) (predictions p))) = [c0, c1, c2, c3, c4, c5]"
  shows "compute_metrics p =
     Inr [(''mcrmse'', np_mean [c0, c1, c2, c3, c4, c5]),
          (''cohesion_rmse'', c0), (''syntax_rmse'', c1), (''vocabulary_rmse'', c2),
          (''phraseology_rmse'', c3), (''grammar_rmse'', c4), (''conventions_rmse'', c5)]"
  unfolding compute_metrics_def Let_def assms by (simp add: or_raise_def item_def)

lemma compute_metrics_six:
  assumes "wf_eval p" "shape (label_ids p) = (N, 6)" "0 < N"
  shows "compute_metrics p =
     Inr [(''mcrmse'', Val ((spec_column_rmse p 0 + spec_column_rmse p 1 + spec_column_rmse p 2
                           + spec_column_rmse p 3 + spec_column_rmse p 4 + spec_column_rmse p 5) / 6)),
          (''cohesion_rmse'', Val (spec_column_rmse p 0)),
          (''syntax_rmse'', Val (spec_column_rmse p 1)),
          (''vocabulary_rmse'', Val (spec_column_rmse p 2)),
          (''phraseology_rmse'', Val (spec_column_rmse p 3)),
          (''grammar_rmse'', Val (spec_column_rmse p 4)),
          (''conventions_rmse'', Val (spec_column_rmse p 5))]"
proof -
  have "map np_sqrt (mean_axis0 (snd (shape (label_ids p)))
             (squared_error (label_ids p) (predictions p)))
         = [Val (spec_column_rmse p 0), Val (spec_column_rmse p 1), Val (spec_column_rmse p 2),
            Val (spec_column_rmse p 3), Val (spec_column_rmse p 4), Val (spec_column_rmse p 5)]"
    using colwise_rmse_list [of p] assms by (simp add: upt_6)
  from compute_metrics_of_colwise [OF this] show ?thesis
    by (simp add: np_mean_def np_sum_def add.assoc)
qed

lemma length_colwise:
  "length (map np_sqrt (mean_axis0 c m)) = c"
  by (simp add: mean_axis0_def)

lemma compute_metrics_few_columns:
  "snd (shape (label_ids p)) < 6 \<Longrightarrow> compute_metrics p = Inl IndexError"
  by (auto simp add: compute_metrics_def Let_def or_raise_def item_def mean_axis0_def)

lemma compute_metrics_enough_columns:
  "6 \<le> snd (shape (label_ids p)) \<Longrightarrow> \<exists>d. compute_metrics p = Inr d"
  by (simp add: compute_metrics_def Let_def or_raise_def item_def mean_axis0_def)

lemma spec_column_rmse_same:
  assumes "rows (predictions p) = rows (label_ids p)"
  shows "spec_column_rmse p j = 0"
  using assms by (simp add: spec_column_rmse_def)

lemma spec_column_rmse_shift:
  assumes "0 < fst (shape (label_ids p))"
    and "\<forall>i<fst (shape (label_ids p)). rows (predictions p) ! i ! j = rows (label_ids p) ! i ! j + c"
  shows "spec_column_rmse p j = \<bar>c\<bar>"
proof -
  have "(\<Sum>i<fst (shape (label_ids p)).
              (rows (label_ids p) ! i ! j - rows (predictions p) ! i ! j)\<^sup>2)
        = (\<Sum>i<fst (shape (label_ids p)). c\<^sup>2)"
    using assms(2) by (intro sum.cong) simp_all
  also have "\<dots> = real (fst (shape (label_ids p))) * c\<^sup>2"
    by simp
  finally show ?thesis
    using assms(1) by (simp add: spec_column_rmse_def)
qed

text \<open>
  Claim C1. For arrays of shape \<open>(N, 6)\<close> with \<open>N \<ge> 1\<close>, \<^verbatim>\<open>compute_metrics\<close> returns for each
  column the square root of the column's mean squared error and, as the aggregate, the
  unweighted mean of the six column values. When the predictions equal the labels every value
  is 0; when the predictions are the labels shifted by a constant \<open>c j\<close> in column \<open>j\<close>, the value
  of column \<open>j\<close> is \<open>\<bar>c j\<bar>\<close>.
\<close>

theorem compute_metrics_rmse:
  assumes "wf_eval p" and "shape (label_ids p) = (N, 6)" and "1 \<le> N"
  shows "compute_metrics p =
     Inr [(''mcrmse'', Val ((spec_column_rmse p 0 + spec_column_rmse p 1 + spec_column_rmse p 2
                           + spec_column_rmse p 3 + spec_column_rmse p 4 + spec_column_rmse p 5) / 6)),
          (''cohesion_rmse'', Val (spec_column_rmse p 0)),
          (''syntax_rmse'', Val (spec_column_rmse p 1)),
          (''vocabulary_rmse'', Val (spec_column_rmse p 2)),
          (''phraseology_rmse'', Val (spec_column_rmse p 3)),
          (''grammar_rmse'', Val (spec_column_rmse p 4)),
          (''conventions_rmse'', Val (spec_column_rmse p 5))]
   \<and> (rows (predictions p) = rows (label_ids p) \<longrightarrow>
        compute_metrics p =
          Inr [(''mcrmse'', Val 0), (''cohesion_rmse'', Val 0), (''syntax_rmse'', Val 0),
               (''vocabulary_rmse'', Val 0), (''phraseology_rmse'', Val 0),
               (''grammar_rmse'', Val 0), (''conventions_rmse'', Val 0)])
   \<and> ((\<forall>i<N. \<forall>j<6. rows (predictions p) ! i ! j = rows (label_ids p) ! i ! j + c j) \<longrightarrow>
        compute_metrics p =
          Inr [(''mcrmse'', Val ((\<bar>c 0\<bar> + \<bar>c 1\<bar> + \<bar>c 2\<bar> + \<bar>c 3\<bar> + \<bar>c 4\<bar> + \<bar>c 5\<bar>) / 6)),
               (''cohesion_rmse'', Val \<bar>c 0\<bar>), (''syntax_rmse'', Val \<bar>c 1\<bar>),
               (''vocabulary_rmse'', Val \<bar>c 2\<bar>), (''phraseology_rmse'', Val \<bar>c 3\<bar>),
               (''grammar_rmse'', Val \<bar>c 4\<bar>), (''conventions_rmse'', Val \<bar>c 5\<bar>)])"
proof -
  have N: "0 < N" "fst (shape (label_ids p)) = N"
    using assms by simp_all
  note out = compute_metrics_six [OF assms(1,2) N(1)]
  have same: "compute_metrics p =
          Inr [(''mcrmse'', Val 0), (''cohesion_rmse'', Val 0), (''syntax_rmse'', Val 0),
               (''vocabulary_rmse'', Val 0), (''phraseology_rmse'', Val 0),
               (''grammar_rmse'', Val 0), (''conventions_rmse'', Val 0)]"
    if "rows (predictions p) = rows (label_ids p)"
    unfolding out by (simp add: spec_column_rmse_same [OF that])
  have shift: "compute_metrics p =
          Inr [(''mcrmse'', Val ((\<bar>c 0\<bar> + \<bar>c 1\<bar> + \<bar>c 2\<bar> + \<bar>c 3\<bar> + \<bar>c 4\<bar> + \<bar>c 5\<bar>) / 6)),
               (''cohesion_rmse'', Val \<bar>c 0\<bar>), (''syntax_rmse'', Val \<bar>c 1\<bar>),
               (''vocabulary_rmse'', Val \<bar>c 2\<bar>), (''phraseology_rmse'', Val \<bar>c 3\<bar>),
               (''grammar_rmse'', Val \<bar>c 4\<bar>), (''conventions_rmse'', Val \<bar>c 5\<bar>)]"
    if h: "\<forall>i<N. \<forall>j<6. rows (predictions p) ! i ! j = rows (label_ids p) ! i ! j + c j"
  proof -
    have "spec_column_rmse p j = \<bar>c j\<bar>" if "j < 6" for j
      using h that N by (intro spec_column_rmse_shift) simp_all
    then show ?thesis
      unfolding out by simp
  qed
  from out same shift show ?thesis
    by blast
qed

theorem compute_metrics_rmse_witness:
  "wf_eval metrics_shifted \<and> shape (label_ids metrics_shifted) = (2, 6) \<and> (1::nat) \<le> 2
   \<and> compute_metrics metrics_shifted =
          Inr [(''mcrmse'', Val (1 / 2)), (''cohesion_rmse'', Val 1), (''syntax_rmse'', Val 2),
               (''vocabulary_rmse'', Val 0), (''phraseology_rmse'', Val 0),
               (''grammar_rmse'', Val 0), (''conventions_rmse'', Val 0)]
   \<and> wf_eval metrics_same \<and> shape (label_ids metrics_same) = (1, 6)
   \<and> rows (predictions metrics_same) = rows (label_ids metrics_same)
   \<and> compute_metrics metrics_same =
          Inr [(''mcrmse'', Val 0), (''cohesion_rmse'', Val 0), (''syntax_rmse'', Val 0),
               (''vocabulary_rmse'', Val 0), (''phraseology_rmse'', Val 0),
               (''grammar_rmse'', Val 0), (''conventions_rmse'', Val 0)]"
proof -
  have a1: "wf_eval metrics_shifted"
    by (simp add: wf_eval_def wf_ndarray_def metrics_shifted_def)
  have a2: "shape (label_ids metrics_shifted) = (2, 6)"
    by (simp add: metrics_shifted_def)
  have a0: "(1::nat) \<le> 2"
    by simp
  have b0: "(1::nat) \<le> 1"
    by simp
  have a3: "\<forall>i<2. \<forall>j<6. rows (predictions metrics_shifted) ! i ! j
                     = rows (label_ids metrics_shifted) ! i ! j + shift_example j"
    by (simp add: metrics_shifted_def shift_example_def numeral_eq_Suc All_less_Suc2)
  have b1: "wf_eval metrics_same"
    by (simp add: wf_eval_def wf_ndarray_def metrics_same_def)
  have b2: "shape (label_ids metrics_same) = (1, 6)"
    by (simp add: metrics_same_def)
  have b3: "rows (predictions metrics_same) = rows (label_ids metrics_same)"
    by (simp add: metrics_same_def)
  have "compute_metrics metrics_shifted =
          Inr [(''mcrmse'', Val (1 / 2)), (''cohesion_rmse'', Val 1), (''syntax_rmse'', Val 2),
               (''vocabulary_rmse'', Val 0), (''phraseology_rmse'', Val 0),
               (''grammar_rmse'', Val 0), (''conventions_rmse'', Val 0)]"
  proof -
    have "compute_metrics metrics_shifted =
          Inr [(''mcrmse'', Val ((\<bar>shift_example 0\<bar> + \<bar>shift_example 1\<bar> + \<bar>shift_example 2\<bar>
                  + \<bar>shift_example 3\<bar> + \<bar>shift_example 4\<bar> + \<bar>shift_example 5\<bar>) / 6)),
               (''cohesion_rmse'', Val \<bar>shift_example 0\<bar>), (''syntax_rmse'', Val \<bar>shift_example 1\<bar>),
               (''vocabulary_rmse'', Val \<bar>shift_example 2\<bar>),
               (''phraseology_rmse'', Val \<bar>shift_example 3\<bar>),
               (''grammar_rmse'', Val \<bar>shift_example 4\<bar>),
               (''conventions_rmse'', Val \<bar>shift_example 5\<bar>)]"
      using compute_metrics_rmse [OF a1 a2 a0, of shift_example] a3 by blast
    then show ?thesis
      by (simp add: shift_example_def)
  qed
  moreover have "compute_metrics metrics_same =
          Inr [(''mcrmse'', Val 0), (''cohesion_rmse'', Val 0), (''syntax_rmse'', Val 0),
               (''vocabulary_rmse'', Val 0), (''phraseology_rmse'', Val 0),
               (''grammar_rmse'', Val 0), (''conventions_rmse'', Val 0)]"
    using compute_metrics_rmse [OF b1 b2 b0] b3 by blast
  ultimately show ?thesis
    using a1 a2 b1 b2 b3 by simp
qed

text \<open>
  Claim C8. For a pair of arrays of one shape: with fewer than 6 columns \<^verbatim>\<open>compute_metrics\<close>
  raises IndexError, at one of the constant indices 0 to 5; with at least 6 columns it returns
  a dictionary.
\<close>

theorem compute_metrics_column_count:
  assumes "wf_eval p"
  shows "(snd (shape (label_ids p)) < 6 \<longrightarrow> compute_metrics p = Inl IndexError)
   \<and> (6 \<le> snd (shape (label_ids p)) \<longrightarrow> (\<exists>d. compute_metrics p = Inr d))"
  using compute_metrics_few_columns [of p] compute_metrics_enough_columns [of p] by blast

theorem compute_metrics_column_count_witness:
  "wf_eval metrics_five_columns
   \<and> snd (shape (label_ids metrics_five_columns)) < 6
   \<and> compute_metrics metrics_five_columns = Inl IndexError
   \<and> wf_eval metrics_seven_columns
   \<and> 6 \<le> snd (shape (label_ids metrics_seven_columns))
   \<and> (\<exists>d. compute_metrics metrics_seven_columns = Inr d)"
proof -
  have w: "wf_eval metrics_five_columns" "wf_eval metrics_seven_columns"
    by (simp_all add: wf_eval_def wf_ndarray_def metrics_five_columns_def
        metrics_seven_columns_def)
  have a: "snd (shape (label_ids metrics_five_columns)) < 6"
    by (simp add: metrics_five_columns_def)
  have b: "6 \<le> snd (shape (label_ids metrics_seven_columns))"
    by (simp add: metrics_seven_columns_def)
  show ?thesis
    using compute_metrics_column_count [OF w(1)] compute_metrics_column_count [OF w(2)] w a b
    by blast
qed

lemma colwise_metric_eq:
  assumes "wf_eval p" "j < snd (shape (label_ids p))"
  shows "np_sqrt (np_mean (map Val (column (squared_error (label_ids p) (predictions p)) j)))
         = spec_column_metric p j"
proof (cases "fst (shape (label_ids p)) = 0")
  case True
  have "column (squared_error (label_ids p) (predictions p)) j
        = map (\<lambda>i. (rows (label_ids p) ! i ! j - rows (predictions p) ! i ! j)\<^sup>2)
            [0..<fst (shape (label_ids p))]"
    using assms by (intro column_squared_error) (simp_all add: wf_eval_def)
  then show ?thesis
    using True by (simp add: spec_column_metric_def np_mean_def np_sum_def)
next
  case False
  then show ?thesis
    using colwise_rmse_eq [OF assms] by (simp add: spec_column_metric_def)
qed

lemma colwise_metric_list:
  assumes "wf_eval p"
  shows "map np_sqrt (mean_axis0 (snd (shape (label_ids p)))
             (squared_error (label_ids p) (predictions p)))
         = map (spec_column_metric p) [0..<snd (shape (label_ids p))]"
  using assms by (simp add: mean_axis0_def colwise_metric_eq)

lemma compute_metrics_six_entries:
  assumes "wf_eval p" "shape (label_ids p) = (N, 6)"
  shows "compute_metrics p =
     Inr [(''mcrmse'', np_mean [spec_column_metric p 0, spec_column_metric p 1,
                                spec_column_metric p 2, spec_column_metric p 3,
                                spec_column_metric p 4, spec_column_metric p 5]),
          (''cohesion_rmse'', spec_column_metric p 0),
          (''syntax_rmse'', spec_column_metric p 1),
          (''vocabulary_rmse'', spec_column_metric p 2),
          (''phraseology_rmse'', spec_column_metric p 3),
          (''grammar_rmse'', spec_column_metric p 4),
          (''conventions_rmse'', spec_column_metric p 5)]"
proof -
  have "map np_sqrt (mean_axis0 (snd (shape (label_ids p)))
             (squared_error (label_ids p) (predictions p)))
         = [spec_column_metric p 0, spec_column_metric p 1, spec_column_metric p 2,
            spec_column_metric p 3, spec_column_metric p 4, spec_column_metric p 5]"
    using colwise_metric_list [OF assms(1)] assms(2) by (simp add: upt_6)
  then show ?thesis
    by (rule compute_metrics_of_colwise)
qed

text \<open>
  Claim C6. For every pair of arrays of shape \<open>(N, 6)\<close>, \<^verbatim>\<open>compute_metrics\<close> returns a
  dictionary with exactly seven entries under seven different names: the value of column 0
  under \<^verbatim>\<open>cohesion_rmse\<close>, of column 1 under \<^verbatim>\<open>syntax_rmse\<close>, then \<^verbatim>\<open>vocabulary_rmse\<close>,
  \<^verbatim>\<open>phraseology_rmse\<close>, \<^verbatim>\<open>grammar_rmse\<close> and \<^verbatim>\<open>conventions_rmse\<close> for columns 2 to 5, and the
  aggregate of the six under \<^verbatim>\<open>mcrmse\<close>.
\<close>

theorem compute_metrics_entries:
  assumes "wf_eval p" and "shape (label_ids p) = (N, 6)"
  shows "\<exists>d. compute_metrics p = Inr d \<and> length d = 7 \<and> distinct (map fst d)
     \<and> map_of d ''cohesion_rmse'' = Some (spec_column_metric p 0)
     \<and> map_of d ''syntax_rmse'' = Some (spec_column_metric p 1)
     \<and> map_of d ''vocabulary_rmse'' = Some (spec_column_metric p 2)
     \<and> map_of d ''phraseology_rmse'' = Some (spec_column_metric p 3)
     \<and> map_of d ''grammar_rmse'' = Some (spec_column_metric p 4)
     \<and> map_of d ''conventions_rmse'' = Some (spec_column_metric p 5)
     \<and> map_of d ''mcrmse'' =
         Some (np_mean [spec_column_metric p 0, spec_column_metric p 1, spec_column_metric p 2,
                        spec_column_metric p 3, spec_column_metric p 4, spec_column_metric p 5])"
  unfolding compute_metrics_six_entries [OF assms] by simp

lemma metrics_shifted_columns:
  "spec_column_metric metrics_shifted 0 = Val 1"
  "spec_column_metric metrics_shifted 1 = Val 2"
  "spec_column_metric metrics_shifted 2 = Val 0"
  "spec_column_metric metrics_shifted 3 = Val 0"
  "spec_column_metric metrics_shifted 4 = Val 0"
  "spec_column_metric metrics_shifted 5 = Val 0"
  by (simp_all add: spec_column_metric_def spec_column_rmse_def metrics_shifted_def
      lessThan_Suc eval_nat_numeral)

theorem compute_metrics_entries_witness:
  "wf_eval metrics_shifted \<and> shape (label_ids metrics_shifted) = (2, 6)
   \<and> (\<exists>d. compute_metrics metrics_shifted = Inr d \<and> length d = 7
        \<and> map_of d ''cohesion_rmse'' = Some (Val 1) \<and> map_of d ''syntax_rmse'' = Some (Val 2)
        \<and> map_of d ''vocabulary_rmse'' = Some (Val 0)
        \<and> map_of d ''phraseology_rmse'' = Some (Val 0)
        \<and> map_of d ''grammar_rmse'' = Some (Val 0) \<and> map_of d ''conventions_rmse'' = Some (Val 0)
        \<and> map_of d ''mcrmse'' = Some (Val (1 / 2)))
   \<and> wf_eval metrics_no_rows \<and> shape (label_ids metrics_no_rows) = (0, 6)
   \<and> (\<exists>d. compute_metrics metrics_no_rows = Inr d \<and> length d = 7
        \<and> map_of d ''cohesion_rmse'' = Some NaN \<and> map_of d ''mcrmse'' = Some NaN)"
proof -
  have a1: "wf_eval metrics_shifted"
    by (simp add: wf_eval_def wf_ndarray_def metrics_shifted_def)
  have a2: "shape (label_ids metrics_shifted) = (2, 6)"
    by (simp add: metrics_shifted_def)
  have b1: "wf_eval metrics_no_rows"
    by (simp add: wf_eval_def wf_ndarray_def metrics_no_rows_def)
  have b2: "shape (label_ids metrics_no_rows) = (0, 6)"
    by (simp add: metrics_no_rows_def)
  have m: "np_mean [Val 1, Val 2, Val 0, Val 0, Val 0, Val 0] = Val (1 / 2)"
    by (simp add: np_mean_def np_sum_def)
  have z: "spec_column_metric metrics_no_rows j = NaN" for j
    by (simp add: spec_column_metric_def metrics_no_rows_def)
  have n: "np_mean [NaN, NaN, NaN, NaN, NaN, NaN] = NaN"
    by (simp add: np_mean_def np_sum_def)
  have a: "\<exists>d. compute_metrics metrics_shifted = Inr d \<and> length d = 7
        \<and> map_of d ''cohesion_rmse'' = Some (Val 1) \<and> map_of d ''syntax_rmse'' = Some (Val 2)
        \<and> map_of d ''vocabulary_rmse'' = Some (Val 0)
        \<and> map_of d ''phraseology_rmse'' = Some (Val 0)
        \<and> map_of d ''grammar_rmse'' = Some (Val 0) \<and> map_of d ''conventions_rmse'' = Some (Val 0)
        \<and> map_of d ''mcrmse'' = Some (Val (1 / 2))"
    using compute_metrics_entries [OF a1 a2] unfolding metrics_shifted_columns m by blast
  have b: "\<exists>d. compute_metrics metrics_no_rows = Inr d \<and> length d = 7
        \<and> map_of d ''cohesion_rmse'' = Some NaN \<and> map_of d ''mcrmse'' = Some NaN"
    using compute_metrics_entries [OF b1 b2] unfolding z n by blast
  from a1 a2 a b1 b2 b show ?thesis
    by blast
qed


section \<open>Properties of the loss functions\<close>

lemma mse_none_equal_length:
  "length p = length t \<Longrightarrow> mse_none p t = Inr (map2 (\<lambda>x y. (x - y)\<^sup>2) p t)"
  by (simp add: mse_none_def broadcast_pairs_def or_raise_def)

lemma rmse_elements:
  assumes "0 \<le> e"
  shows "map (\<lambda>x. np_sqrt (Val (x + e))) (map2 (\<lambda>x y. (x - y)\<^sup>2) p t)
         = map Val (map2 (spec_rmse_elem e) p t)"
  using assms by (auto simp add: spec_rmse_elem_def not_less intro: add_nonneg_nonneg)

lemma forward_equal_length:
  assumes "length p = length t" "0 \<le> e"
  shows "forward (RMSELoss r e) p t =
     (if r = ''sum'' then Inr (Scalar (Val (sum_list (map2 (spec_rmse_elem e) p t))))
      else if r = ''mean'' then
        Inr (Scalar (if p = [] then NaN
                     else Val (sum_list (map2 (spec_rmse_elem e) p t) / real (length p))))
      else Inr (Elementwise (map Val (map2 (spec_rmse_elem e) p t))))"
proof -
  have len: "length (map2 (spec_rmse_elem e) p t) = length p"
    using assms(1) by simp
  have empty: "(map2 (spec_rmse_elem e) p t = []) = (p = [])"
    using len by (metis length_0_conv)
  have fw: "forward (RMSELoss r e) p t =
      (let loss = map Val (map2 (spec_rmse_elem e) p t)
       in if r = ''none'' then Inr (Elementwise loss)
          else if r = ''sum'' then Inr (Scalar (np_sum loss))
          else if r = ''mean'' then Inr (Scalar (np_mean loss))
          else Inr (Elementwise loss))"
    using rmse_elements [OF assms(2), of p t]
    by (simp add: forward_def mse_none_equal_length [OF assms(1)] or_raise_def RMSELoss_def
        Let_def del: map_map)
  show ?thesis
    unfolding fw Let_def np_sum_Val np_mean_Val
    using assms(1) by auto
qed

lemma spec_rmse_elem_nonneg: "0 \<le> e \<Longrightarrow> 0 \<le> spec_rmse_elem e x y"
  by (simp add: spec_rmse_elem_def)

lemma sum_list_map2_nonneg:
  "0 \<le> e \<Longrightarrow> 0 \<le> sum_list (map2 (spec_rmse_elem e) p t)"
  by (intro sum_list_nonneg) (auto simp: spec_rmse_elem_nonneg)

lemma sum_list_same:
  "sum_list (map2 (spec_rmse_elem e) p p) = real (length p) * sqrt e"
  by (induction p) (simp_all add: spec_rmse_elem_def algebra_simps)

text \<open>
  Claim C2, as the code has it. For non-empty predictions and targets of equal shape, the
  RMSE loss is the root of each element's squared error plus \<open>1e-9\<close>, returned elementwise for
  \<^verbatim>\<open>none\<close>, summed for \<^verbatim>\<open>sum\<close> and averaged for \<^verbatim>\<open>mean\<close>, the default that \<^verbatim>\<open>loss_fn\<close> uses; with
  every reduction the result is non-negative, and the loss of a tensor against itself is
  \<open>sqrt 1e-9\<close> under the mean reduction.
\<close>

theorem rmse_loss_value:
  assumes "length p = length t" and "p \<noteq> []"
  shows "forward (RMSELoss ''none'' (1 / 10 ^ 9)) p t
           = Inr (Elementwise (map Val (map2 (spec_rmse_elem (1 / 10 ^ 9)) p t)))
       \<and> forward (RMSELoss ''sum'' (1 / 10 ^ 9)) p t
           = Inr (Scalar (Val (sum_list (map2 (spec_rmse_elem (1 / 10 ^ 9)) p t))))
       \<and> forward (RMSELoss ''mean'' (1 / 10 ^ 9)) p t
           = Inr (Scalar (Val (sum_list (map2 (spec_rmse_elem (1 / 10 ^ 9)) p t)
                               / real (length p))))
       \<and> loss_fn p t ''rmse'' = forward (RMSELoss ''mean'' (1 / 10 ^ 9)) p t
       \<and> (\<exists>v. forward (RMSELoss r (1 / 10 ^ 9)) p t = Inr v \<and> loss_nonneg v)
       \<and> loss_fn p p ''rmse'' = Inr (Scalar (Val (sqrt (1 / 10 ^ 9))))"
proof -
  let ?e = "1 / 10 ^ 9 :: real"
  have e: "0 \<le> ?e"
    by simp
  note fw = forward_equal_length [OF assms(1) e]
  have c1: "forward (RMSELoss ''none'' ?e) p t
           = Inr (Elementwise (map Val (map2 (spec_rmse_elem ?e) p t)))"
    unfolding fw by simp
  have c2: "forward (RMSELoss ''sum'' ?e) p t
           = Inr (Scalar (Val (sum_list (map2 (spec_rmse_elem ?e) p t))))"
    unfolding fw by simp
  have c3: "forward (RMSELoss ''mean'' ?e) p t
           = Inr (Scalar (Val (sum_list (map2 (spec_rmse_elem ?e) p t) / real (length p))))"
    unfolding fw using assms(2) by simp
  have c4: "loss_fn p t ''rmse'' = forward (RMSELoss ''mean'' ?e) p t"
    by (simp add: loss_fn_def RMSELoss_default_def)
  have s: "0 \<le> sum_list (map2 (spec_rmse_elem ?e) p t)"
    by (rule sum_list_map2_nonneg [OF e])
  have elems: "list_all np_nonneg (map Val (map2 (spec_rmse_elem ?e) p t))"
    using spec_rmse_elem_nonneg [OF e] by (simp add: list_all_iff split_beta)
  have c5: "\<exists>v. forward (RMSELoss r ?e) p t = Inr v \<and> loss_nonneg v"
    unfolding fw using assms(2) s elems by simp
  have "forward (RMSELoss ''mean'' ?e) p p
           = Inr (Scalar (Val (sum_list (map2 (spec_rmse_elem ?e) p p) / real (length p))))"
    unfolding forward_equal_length [OF refl e] using assms(2) by simp
  then have c6: "loss_fn p p ''rmse'' = Inr (Scalar (Val (sqrt ?e)))"
    using assms(2) by (simp add: loss_fn_def RMSELoss_default_def sum_list_same)
  from c1 c2 c3 c4 c5 c6 show ?thesis
    by blast
qed

theorem rmse_loss_value_witness:
  "length [1, 2 :: real] = length [1, 2 :: real] \<and> [1, 2 :: real] \<noteq> []
   \<and> loss_fn [1, 2] [1, 2] ''rmse'' = Inr (Scalar (Val (sqrt (1 / 10 ^ 9))))"
proof -
  have a: "length [1, 2 :: real] = length [1, 2 :: real]" "[1, 2 :: real] \<noteq> []"
    by simp_all
  from rmse_loss_value [OF a] a show ?thesis
    by blast
qed

text \<open>
  Claim C2 is stated for all tensors of equal shape. For the empty tensor the mean reduction
  divides by zero elements: the loss is NaN, which is neither \<open>sqrt 1e-9\<close> nor \<open>\<ge> 0\<close>.
\<close>

theorem rmse_loss_empty_counterexample:
  "loss_fn [] [] ''rmse'' = Inr (Scalar NaN)
   \<and> loss_fn [] [] ''rmse'' \<noteq> Inr (Scalar (Val (sqrt (1 / 10 ^ 9))))
   \<and> \<not> loss_nonneg (Scalar NaN)"
  by (simp add: loss_fn_def RMSELoss_default_def RMSELoss_def forward_def mse_none_def
      broadcast_pairs_def or_raise_def np_mean_def np_sum_def)

text \<open>
  Claim C9. \<^verbatim>\<open>loss_fn\<close> has no branch for a selector other than \<^verbatim>\<open>mse\<close>, \<^verbatim>\<open>rmse\<close> and
  \<^verbatim>\<open>smooth_l1\<close>: the call ends in Python's UnboundLocalError for the local \<^verbatim>\<open>loss_func\<close>, not
  in an error raised for the selector.
\<close>

theorem loss_fn_unrecognised_kind:
  "loss_fn [1] [2] ''mae'' = Inl UnboundLocalError"
  by (simp add: loss_fn_def)

lemma loss_fn_unbound:
  "loss_type \<notin> {''mse'', ''rmse'', ''smooth_l1''}
   \<Longrightarrow> loss_fn outputs labels loss_type = Inl UnboundLocalError"
  by (simp add: loss_fn_def)

text \<open>
  Claim C10. An \<^verbatim>\<open>RMSELoss\<close> built with a reduction string other than \<^verbatim>\<open>none\<close>, \<^verbatim>\<open>sum\<close> and
  \<^verbatim>\<open>mean\<close> does not fail: \<^verbatim>\<open>forward\<close> returns the unreduced tensor of the roots of squared
  error plus epsilon, as with \<^verbatim>\<open>none\<close>.
\<close>

theorem rmse_unknown_reduction:
  assumes "r \<notin> {''none'', ''sum'', ''mean''}" and "length p = length t"
  shows "forward (RMSELoss r e) p t = forward (RMSELoss ''none'' e) p t
       \<and> forward (RMSELoss r e) p t
           = Inr (Elementwise (map2 (\<lambda>x y. np_sqrt (Val ((x - y)\<^sup>2 + e))) p t))"
  using assms
  by (simp add: forward_def RMSELoss_def mse_none_equal_length or_raise_def Let_def
      split_beta del: np_sqrt.simps)

theorem rmse_unknown_reduction_witness:
  "''max'' \<notin> {''none'', ''sum'', ''mean''} \<and> length [3 :: real] = length [1 :: real]
   \<and> forward (RMSELoss ''max'' 0) [3] [1] = Inr (Elementwise [Val 2])"
proof -
  have a: "''max'' \<notin> {''none'', ''sum'', ''mean''}"
    by simp
  have b: "length [3 :: real] = length [1 :: real]"
    by simp
  have "forward (RMSELoss ''max'' 0) [3] [1]
           = Inr (Elementwise (map2 (\<lambda>x y. np_sqrt (Val ((x - y)\<^sup>2 + 0))) [3] [1]))"
    using rmse_unknown_reduction [OF a b, of 0] by blast
  then have "forward (RMSELoss ''max'' 0) [3] [1] = Inr (Elementwise [Val 2])"
    by simp
  with a b show ?thesis
    by blast
qed


section \<open>Properties of the parameter groups\<close>

lemmas named_members_induct =
  named_members_named_members_modules_named_members_items.induct

lemma snd_named_members_prefix:
  "\<forall>pre'. map snd (named_members pre m) = map snd (named_members pre' m)"
  "\<forall>pre'. map snd (named_members_modules pre ms) = map snd (named_members_modules pre' ms)"
  "\<forall>pre' i'. map snd (named_members_items pre i ls) = map snd (named_members_items pre' i' ls)"
proof (induction pre m and pre ms and pre i ls rule: named_members_induct)
  case (1 pre ps ms)
  then show ?case by (simp add: split_beta)
next
  case (2 pre ls)
  then show ?case by simp
next
  case (3 pre)
  then show ?case by simp
next
  case (4 pre k m ms)
  show ?case
  proof (intro allI)
    fix pre'
    have "map snd (named_members (qualname pre k) m) = map snd (named_members (qualname pre' k) m)"
      using 4(1) by blast
    moreover have "map snd (named_members_modules pre ms) = map snd (named_members_modules pre' ms)"
      using 4(2) by blast
    ultimately show "map snd (named_members_modules pre ((k, m) # ms))
        = map snd (named_members_modules pre' ((k, m) # ms))"
      by simp
  qed
next
  case (5 pre i)
  then show ?case by simp
next
  case (6 pre i m ls)
  show ?case
  proof (intro allI)
    fix pre' i'
    have "map snd (named_members (qualname pre (str_nat i)) m)
        = map snd (named_members (qualname pre' (str_nat i')) m)"
      using 6(1) by blast
    moreover have "map snd (named_members_items pre (Suc i) ls)
        = map snd (named_members_items pre' (Suc i') ls)"
      using 6(2) by blast
    ultimately show "map snd (named_members_items pre i (m # ls))
        = map snd (named_members_items pre' i' (m # ls))"
      by simp
  qed
qed

lemma qualname_nonempty: "pre \<noteq> [] \<Longrightarrow> qualname pre k = pre @ ''.'' @ k"
  by (simp add: qualname_def)

lemma list_all_prefix_weaken:
  "list_all (\<lambda>(n, p). prefix (a @ b) n) xs \<Longrightarrow> list_all (\<lambda>(n, p). prefix a n) xs"
  by (induction xs) (auto dest: append_prefixD)

lemma named_members_prefix:
  "pre \<noteq> [] \<longrightarrow> list_all (\<lambda>(n, p). prefix (pre @ ''.'') n) (named_members pre m)"
  "pre \<noteq> [] \<longrightarrow> list_all (\<lambda>(n, p). prefix (pre @ ''.'') n) (named_members_modules pre ms)"
  "pre \<noteq> [] \<longrightarrow> list_all (\<lambda>(n, p). prefix (pre @ ''.'') n) (named_members_items pre i ls)"
proof (induction pre m and pre ms and pre i ls rule: named_members_induct)
  case (1 pre ps ms)
  then show ?case
    by (auto simp add: list_all_iff qualname_nonempty)
next
  case (2 pre ls)
  then show ?case by simp
next
  case (3 pre)
  then show ?case by simp
next
  case (4 pre k m ms)
  show ?case
  proof
    assume ne: "pre \<noteq> []"
    then have q: "qualname pre k \<noteq> []" "qualname pre k @ ''.'' = (pre @ ''.'') @ (k @ ''.'')"
      by (simp_all add: qualname_nonempty)
    have "list_all (\<lambda>(n, p). prefix (qualname pre k @ ''.'') n) (named_members (qualname pre k) m)"
      using 4(1) q(1) by blast
    then have "list_all (\<lambda>(n, p). prefix ((pre @ ''.'') @ (k @ ''.'')) n)
        (named_members (qualname pre k) m)"
      by (simp only: q(2))
    then have "list_all (\<lambda>(n, p). prefix (pre @ ''.'') n) (named_members (qualname pre k) m)"
      by (rule list_all_prefix_weaken)
    moreover have "list_all (\<lambda>(n, p). prefix (pre @ ''.'') n) (named_members_modules pre ms)"
      using 4(2) ne by blast
    ultimately show "list_all (\<lambda>(n, p). prefix (pre @ ''.'') n)
        (named_members_modules pre ((k, m) # ms))"
      by simp
  qed
next
  case (5 pre i)
  then show ?case by simp
next
  case (6 pre i m ls)
  show ?case
  proof
    assume ne: "pre \<noteq> []"
    then have q: "qualname pre (str_nat i) \<noteq> []"
      "qualname pre (str_nat i) @ ''.'' = (pre @ ''.'') @ (str_nat i @ ''.'')"
      by (simp_all add: qualname_nonempty)
    have "list_all (\<lambda>(n, p). prefix (qualname pre (str_nat i) @ ''.'') n)
        (named_members (qualname pre (str_nat i)) m)"
      using 6(1) q(1) by blast
    then have "list_all (\<lambda>(n, p). prefix ((pre @ ''.'') @ (str_nat i @ ''.'')) n)
        (named_members (qualname pre (str_nat i)) m)"
      by (simp only: q(2))
    then have "list_all (\<lambda>(n, p). prefix (pre @ ''.'') n)
        (named_members (qualname pre (str_nat i)) m)"
      by (rule list_all_prefix_weaken)
    moreover have "list_all (\<lambda>(n, p). prefix (pre @ ''.'') n) (named_members_items pre (Suc i) ls)"
      using 6(2) ne by blast
    ultimately show "list_all (\<lambda>(n, p). prefix (pre @ ''.'') n)
        (named_members_items pre i (m # ls))"
      by simp
  qed
qed

lemma remove_duplicate_distinct:
  "distinct (map snd xs) \<Longrightarrow> set (map snd xs) \<inter> memo = {} \<Longrightarrow> remove_duplicate memo xs = xs"
proof (induction xs arbitrary: memo)
  case Nil
  then show ?case by simp
next
  case (Cons x xs)
  obtain n p where x: "x = (n, p)"
    by (cases x)
  have "remove_duplicate (insert p memo) xs = xs"
    using Cons.prems by (intro Cons.IH) (auto simp: x)
  then show ?case
    using Cons.prems by (simp add: x)
qed

lemma named_parameters_distinct:
  "distinct (map snd (named_members [] m)) \<Longrightarrow> named_parameters m = named_members [] m"
  by (simp add: named_parameters_def remove_duplicate_distinct)

lemma distinct_mset_subset:
  assumes "mset xs \<subseteq># mset ys" and "distinct ys"
  shows "distinct xs"
proof -
  have "count (mset xs) a \<le> 1" for a
    using mset_subset_eq_count [OF assms(1), of a] assms(2)
    by (metis distinct_count_atmost_1 le_trans order_refl zero_le_one)
  then show ?thesis
    by (metis distinct_count_atmost_1 le_antisym count_greater_eq_one_iff set_mset_mset
        not_in_iff)
qed

lemma child_params_subset:
  "map_of ms k = Some c
   \<Longrightarrow> mset (map snd (named_members pre' c)) \<subseteq># mset (map snd (named_members_modules pre ms))"
proof (induction ms)
  case Nil
  then show ?case by simp
next
  case (Cons km ms)
  obtain k' m where km: "km = (k', m)"
    by (cases km)
  show ?case
  proof (cases "k' = k")
    case True
    then have "c = m"
      using Cons.prems km by simp
    moreover have "map snd (named_members pre' m) = map snd (named_members (qualname pre k') m)"
      using snd_named_members_prefix(1) by blast
    ultimately show ?thesis
      by (simp add: km)
  next
    case False
    then have "mset (map snd (named_members pre' c))
        \<subseteq># mset (map snd (named_members_modules pre ms))"
      using Cons km by simp
    then show ?thesis
      by (simp add: km subset_mset.add_increasing)
  qed
qed

lemma two_children_params_subset:
  "k1 \<noteq> k2 \<Longrightarrow> map_of ms k1 = Some c1 \<Longrightarrow> map_of ms k2 = Some c2
   \<Longrightarrow> mset (map snd (named_members p1 c1)) + mset (map snd (named_members p2 c2))
       \<subseteq># mset (map snd (named_members_modules pre ms))"
proof (induction ms)
  case Nil
  then show ?case by simp
next
  case (Cons km ms)
  obtain k' m where km: "km = (k', m)"
    by (cases km)
  have eq: "map snd (named_members q m) = map snd (named_members (qualname pre k') m)" for q
    using snd_named_members_prefix(1) by blast
  consider "k' = k1" | "k' = k2" | "k' \<noteq> k1" "k' \<noteq> k2"
    by blast
  then show ?case
  proof cases
    case 1
    then have "c1 = m" "map_of ms k2 = Some c2"
      using Cons.prems km by auto
    then show ?thesis
      using child_params_subset [of ms k2 c2 p2 pre] eq [of p1]
      by (simp add: km)
  next
    case 2
    then have "c2 = m" "map_of ms k1 = Some c1"
      using Cons.prems km by auto
    then show ?thesis
      using child_params_subset [of ms k1 c1 p1 pre] eq [of p2]
      by (simp add: km add.commute)
  next
    case 3
    then have "mset (map snd (named_members p1 c1)) + mset (map snd (named_members p2 c2))
       \<subseteq># mset (map snd (named_members_modules pre ms))"
      using Cons km by simp
    then show ?thesis
      by (simp add: km subset_mset.add_increasing)
  qed
qed

lemma child_members_subset:
  "map_of ms k = Some c
   \<Longrightarrow> set (named_members (qualname pre k) c) \<subseteq> set (named_members_modules pre ms)"
  by (induction ms) (auto split: if_splits)

lemma snd_named_members_items:
  "map snd (named_members_items pre i ls) = concat (map (\<lambda>l. map snd (named_members [] l)) ls)"
proof (induction ls arbitrary: i)
  case Nil
  then show ?case by simp
next
  case (Cons l ls)
  have "map snd (named_members (qualname pre (str_nat i)) l) = map snd (named_members [] l)"
    using snd_named_members_prefix(1) by blast
  then show ?case
    by (simp add: Cons)
qed

lemma mset_decay_split:
  "mset (decay_params xs) + mset (no_decay_params xs) = mset (map snd xs)"
  by (induction xs) (auto simp add: decay_params_def no_decay_params_def)

lemma mset_layer_groups:
  "mset (concat (map params (layer_groups layers lr0 wd d))) = mset (layer_params layers)"
proof (induction layers arbitrary: lr0)
  case Nil
  then show ?case by (simp add: layer_params_def)
next
  case (Cons l layers)
  have "mset (concat (map params (layer_groups (l # layers) lr0 wd d)))
      = mset (decay_params (named_parameters l)) + mset (no_decay_params (named_parameters l))
        + mset (concat (map params (layer_groups layers (lr0 * d) wd d)))"
    by simp
  also have "\<dots> = mset (map snd (named_parameters l)) + mset (layer_params layers)"
    by (simp only: mset_decay_split Cons)
  finally show ?case
    by (simp add: layer_params_def)
qed

lemma reversed_layers_Inr:
  assumes "reversed_layers model = Inr layers"
  shows "\<exists>ps ms bps bms emb cps cms ls.
     model = Module ps ms \<and> map_of ms ''model'' = Some (Module bps bms)
     \<and> map_of bms ''embeddings'' = Some emb \<and> map_of bms ''encoder'' = Some (Module cps cms)
     \<and> map_of cms ''layer'' = Some (ModuleList ls) \<and> layers = rev (emb # ls)"
proof -
  obtain backbone where b: "getattr model ''model'' = Inr backbone"
    using assms by (cases "getattr model ''model''") (simp_all add: reversed_layers_def or_raise_def)
  obtain emb where e: "getattr backbone ''embeddings'' = Inr emb"
    using assms b
    by (cases "getattr backbone ''embeddings''") (simp_all add: reversed_layers_def or_raise_def)
  obtain enc where c: "getattr backbone ''encoder'' = Inr enc"
    using assms b e
    by (cases "getattr backbone ''encoder''") (simp_all add: reversed_layers_def or_raise_def)
  obtain lay where l: "getattr enc ''layer'' = Inr lay"
    using assms b e c
    by (cases "getattr enc ''layer''") (simp_all add: reversed_layers_def or_raise_def)
  obtain ls where ls: "list_of lay = Inr ls"
    using assms b e c l
    by (cases "list_of lay") (simp_all add: reversed_layers_def or_raise_def)
  have layers: "layers = rev (emb # ls)"
    using assms b e c l ls by (simp add: reversed_layers_def or_raise_def)
  obtain ps ms where m: "model = Module ps ms" "map_of ms ''model'' = Some backbone"
    using b by (cases model) (auto split: option.splits)
  obtain bps bms where bb: "backbone = Module bps bms" "map_of bms ''embeddings'' = Some emb"
    using e by (cases backbone) (auto split: option.splits)
  have bc: "map_of bms ''encoder'' = Some enc"
    using c bb by (auto split: option.splits)
  obtain cps cms where ee: "enc = Module cps cms" "map_of cms ''layer'' = Some lay"
    using l by (cases enc) (auto split: option.splits)
  have "lay = ModuleList ls"
    using ls by (cases lay) simp_all
  with m bb bc ee layers show ?thesis
    by blast
qed

lemma layers_inside_model:
  assumes "map_of ms ''model'' = Some (Module bps bms)"
    and "map_of bms ''embeddings'' = Some emb"
    and "map_of bms ''encoder'' = Some (Module cps cms)"
    and "map_of cms ''layer'' = Some (ModuleList ls)"
  shows "set (named_members ''model.embeddings'' emb) \<subseteq> set (named_members [] (Module ps ms))"
    and "set (named_members_items ''model.encoder.layer'' 0 ls)
         \<subseteq> set (named_members [] (Module ps ms))"
    and "mset (map snd (named_members [] emb))
         + mset (concat (map (\<lambda>l. map snd (named_members [] l)) ls))
         \<subseteq># mset (map snd (named_members [] (Module ps ms)))"
proof -
  have q: "qualname [] ''model'' = ''model''"
    "qualname ''model'' ''embeddings'' = ''model.embeddings''"
    "qualname ''model'' ''encoder'' = ''model.encoder''"
    "qualname ''model.encoder'' ''layer'' = ''model.encoder.layer''"
    by (simp_all add: qualname_def)
  have b: "set (named_members ''model'' (Module bps bms)) \<subseteq> set (named_members [] (Module ps ms))"
    using child_members_subset [OF assms(1), of "[]"] by (auto simp add: q)
  have e: "set (named_members ''model.embeddings'' emb)
      \<subseteq> set (named_members ''model'' (Module bps bms))"
    using child_members_subset [OF assms(2), of "''model''"] by (auto simp add: q)
  have c: "set (named_members ''model.encoder'' (Module cps cms))
      \<subseteq> set (named_members ''model'' (Module bps bms))"
    using child_members_subset [OF assms(3), of "''model''"] by (auto simp add: q)
  have l: "set (named_members_items ''model.encoder.layer'' 0 ls)
      \<subseteq> set (named_members ''model.encoder'' (Module cps cms))"
    using child_members_subset [OF assms(4), of "''model.encoder''"] by (auto simp add: q)
  show "set (named_members ''model.embeddings'' emb) \<subseteq> set (named_members [] (Module ps ms))"
    using e b by blast
  show "set (named_members_items ''model.encoder.layer'' 0 ls)
         \<subseteq> set (named_members [] (Module ps ms))"
    using l c b by blast
  have m1: "mset (map snd (named_members [] (ModuleList ls)))
      \<subseteq># mset (map snd (named_members [] (Module cps cms)))"
    using child_params_subset [OF assms(4), of "[]" "[]"]
    by (simp add: subset_mset.add_increasing)
  have "mset (map snd (named_members [] emb)) + mset (map snd (named_members [] (Module cps cms)))
      \<subseteq># mset (map snd (named_members_modules ''model'' bms))"
    by (rule two_children_params_subset [OF _ assms(2,3)]) simp
  then have m2: "mset (map snd (named_members [] emb))
        + mset (map snd (named_members [] (Module cps cms)))
      \<subseteq># mset (map snd (named_members ''model'' (Module bps bms)))"
    by (simp add: subset_mset.add_increasing)
  have m3: "mset (map snd (named_members ''model'' (Module bps bms)))
      \<subseteq># mset (map snd (named_members [] (Module ps ms)))"
    using child_params_subset [OF assms(1), of "''model''" "[]"]
    by (simp add: subset_mset.add_increasing)
  have "mset (map snd (named_members [] emb)) + mset (map snd (named_members [] (ModuleList ls)))
      \<subseteq># mset (map snd (named_members [] emb))
          + mset (map snd (named_members [] (Module cps cms)))"
    using m1 by simp
  then have "mset (map snd (named_members [] emb))
        + mset (map snd (named_members [] (ModuleList ls)))
      \<subseteq># mset (map snd (named_members [] (Module ps ms)))"
    using m2 m3 by (meson subset_mset.order_trans)
  then show "mset (map snd (named_members [] emb))
         + mset (concat (map (\<lambda>l. map snd (named_members [] l)) ls))
         \<subseteq># mset (map snd (named_members [] (Module ps ms)))"
    by (simp add: snd_named_members_items)
qed

lemma str_in_prefix: "prefix (s @ r) n \<Longrightarrow> str_in s n"
  unfolding str_in_def by (meson append_prefixD prefix_imp_sublist)

lemma embeddings_names:
  assumes "(n, p) \<in> set (named_members ''model.embeddings'' emb)"
  shows "str_in ''model'' n \<and> str_in ''model.embeddings'' n"
proof -
  have "list_all (\<lambda>(n, p). prefix (''model.embeddings'' @ ''.'') n)
      (named_members ''model.embeddings'' emb)"
    using named_members_prefix(1) [of "''model.embeddings''" emb] by simp
  then have pre: "prefix (''model.embeddings'' @ ''.'') n"
    using assms by (auto simp add: list_all_iff)
  have "str_in ''model.embeddings'' n"
    using pre by (rule str_in_prefix)
  moreover have "prefix (''model'' @ ''.embeddings.'') n"
    using pre by simp
  then have "str_in ''model'' n"
    by (rule str_in_prefix)
  ultimately show ?thesis
    by blast
qed

lemma layer_names:
  assumes "(n, p) \<in> set (named_members_items ''model.encoder.layer'' i ls)"
  shows "str_in ''model'' n \<and> str_in ''model.encoder.layer'' n"
proof -
  have "list_all (\<lambda>(n, p). prefix (''model.encoder.layer'' @ ''.'') n)
      (named_members_items ''model.encoder.layer'' i ls)"
    using named_members_prefix(3) [of "''model.encoder.layer''" i ls] by simp
  then have pre: "prefix (''model.encoder.layer'' @ ''.'') n"
    using assms by (auto simp add: list_all_iff)
  have "str_in ''model.encoder.layer'' n"
    using pre by (rule str_in_prefix)
  moreover have "prefix (''model'' @ ''.encoder.layer.'') n"
    using pre by simp
  then have "str_in ''model'' n"
    by (rule str_in_prefix)
  ultimately show ?thesis
    by blast
qed

lemma unique_name:
  "distinct (map snd xs) \<Longrightarrow> (n, p) \<in> set xs \<Longrightarrow> (n', p) \<in> set xs \<Longrightarrow> n = n'"
  by (induction xs) (auto simp add: rev_image_eqI)

lemma mset_three_filters:
  "mset (map snd (filter (\<lambda>(n, p). \<not> A n) xs))
   + mset (map snd (filter (\<lambda>(n, p). A n \<and> \<not> B n \<and> \<not> C n) xs))
   + mset (map snd (filter (\<lambda>(n, p). A n \<and> (B n \<or> C n)) xs))
   = mset (map snd xs)"
  by (induction xs) auto

lemma mset_member_concat:
  "l \<in> set ls \<Longrightarrow> mset (f l) \<subseteq># mset (concat (map f ls))"
  by (induction ls) (auto simp add: subset_mset.add_increasing)

lemma layer_params_members:
  assumes "distinct (map snd (named_members [] (Module ps ms)))"
    and "map_of ms ''model'' = Some (Module bps bms)"
    and "map_of bms ''embeddings'' = Some emb"
    and "map_of bms ''encoder'' = Some (Module cps cms)"
    and "map_of cms ''layer'' = Some (ModuleList ls)"
  shows "layer_params (rev (emb # ls))
         = concat (map (\<lambda>l. map snd (named_members [] l)) (rev (emb # ls)))"
    and "mset (layer_params (rev (emb # ls))) \<subseteq># mset (map snd (named_members [] (Module ps ms)))"
proof -
  note sub = layers_inside_model(3) [OF assms(2-5), of ps]
  have d: "distinct (map snd (named_members [] l))" if "l \<in> set (emb # ls)" for l
  proof -
    have "mset (map snd (named_members [] l))
        \<subseteq># mset (map snd (named_members [] emb))
            + mset (concat (map (\<lambda>l. map snd (named_members [] l)) ls))"
    proof (cases "l = emb")
      case True
      then show ?thesis by simp
    next
      case False
      then have "l \<in> set ls"
        using that by simp
      then have "mset (map snd (named_members [] l))
          \<subseteq># mset (concat (map (\<lambda>l. map snd (named_members [] l)) ls))"
        by (rule mset_member_concat)
      then show ?thesis
        by (simp add: subset_mset.add_increasing)
    qed
    then have "mset (map snd (named_members [] l))
        \<subseteq># mset (map snd (named_members [] (Module ps ms)))"
      using sub by (meson subset_mset.order_trans)
    then show ?thesis
      using assms(1) by (rule distinct_mset_subset)
  qed
  have "map (\<lambda>l. map snd (named_parameters l)) (rev (emb # ls))
      = map (\<lambda>l. map snd (named_members [] l)) (rev (emb # ls))"
    by (rule map_cong [OF refl]) (use d in \<open>simp add: named_parameters_distinct\<close>)
  then show eq: "layer_params (rev (emb # ls))
         = concat (map (\<lambda>l. map snd (named_members [] l)) (rev (emb # ls)))"
    by (simp only: layer_params_def)
  have "mset (concat (map (\<lambda>l. map snd (named_members [] l)) (rev (emb # ls))))
      = mset (map snd (named_members [] emb))
        + mset (concat (map (\<lambda>l. map snd (named_members [] l)) ls))"
    by (simp add: mset_concat flip: rev_map)
  then have "mset (layer_params (rev (emb # ls)))
      = mset (map snd (named_members [] emb))
        + mset (concat (map (\<lambda>l. map snd (named_members [] l)) ls))"
    by (simp only: eq)
  then show "mset (layer_params (rev (emb # ls)))
      \<subseteq># mset (map snd (named_members [] (Module ps ms)))"
    using sub by (simp only:)
qed

lemma layer_params_set:
  "set (concat (map (\<lambda>l. map snd (named_members [] l)) (rev (emb # ls))))
   = snd ` set (named_members ''model.embeddings'' emb)
     \<union> snd ` set (named_members_items ''model.encoder.layer'' 0 ls)"
proof -
  have a: "snd ` set (named_members ''model.embeddings'' emb) = set (map snd (named_members [] emb))"
    using snd_named_members_prefix(1) [of "''model.embeddings''" emb]
    by (metis set_map)
  have b: "snd ` set (named_members_items ''model.encoder.layer'' 0 ls)
      = set (concat (map (\<lambda>l. map snd (named_members [] l)) ls))"
    using snd_named_members_items [of "''model.encoder.layer''" 0 ls]
    by (metis set_map)
  show ?thesis
    unfolding a b by auto
qed

lemma grouped_parameters_value:
  assumes "reversed_layers model = Inr layers"
  shows "get_optimizer_grouped_parameters model llr dlr wd d =
     Inr ([\<lparr>params = map snd (filter (\<lambda>(n, p). \<not> str_in ''model'' n) (named_parameters model)),
             weight_decay = 0, lr = Some dlr\<rparr>,
           \<lparr>params = decay_params (extra_params model), weight_decay = wd, lr = Some llr\<rparr>,
           \<lparr>params = no_decay_params (extra_params model), weight_decay = 0, lr = Some llr\<rparr>]
          @ layer_groups layers llr wd d)"
  by (simp add: get_optimizer_grouped_parameters_def assms or_raise_def)

lemma mset_grouped_parameters:
  assumes "reversed_layers model = Inr layers"
    and "get_optimizer_grouped_parameters model llr dlr wd d = Inr gs"
  shows "mset (concat (map params gs))
     = mset (map snd (filter (\<lambda>(n, p). \<not> str_in ''model'' n) (named_parameters model)))
       + mset (map snd (extra_params model)) + mset (layer_params layers)"
proof -
  have gs: "gs = [\<lparr>params = map snd (filter (\<lambda>(n, p). \<not> str_in ''model'' n)
                                 (named_parameters model)),
             weight_decay = 0, lr = Some dlr\<rparr>,
           \<lparr>params = decay_params (extra_params model), weight_decay = wd, lr = Some llr\<rparr>,
           \<lparr>params = no_decay_params (extra_params model), weight_decay = 0, lr = Some llr\<rparr>]
          @ layer_groups layers llr wd d"
    using assms(2) unfolding grouped_parameters_value [OF assms(1)] by simp
  have "mset (concat (map params gs))
     = mset (map snd (filter (\<lambda>(n, p). \<not> str_in ''model'' n) (named_parameters model)))
       + (mset (decay_params (extra_params model)) + mset (no_decay_params (extra_params model)))
       + mset (concat (map params (layer_groups layers llr wd d)))"
    unfolding gs by (simp del: mset_map mset_filter)
  then show ?thesis
    by (simp only: mset_decay_split mset_layer_groups)
qed

text \<open>
  The layout that the source is written for. When the model has the attribute path that the
  source reads (\<^verbatim>\<open>model.embeddings\<close> and the list \<^verbatim>\<open>model.encoder.layer\<close>), no parameter is
  registered in two places, and every parameter outside the embedding block and the encoder
  layers has a name without \<^verbatim>\<open>model\<close> (a head parameter) or a name with neither
  \<^verbatim>\<open>model.embeddings\<close> nor \<^verbatim>\<open>model.encoder.layer\<close> in it, the groups hold every parameter of
  the model once.
\<close>

lemma grouped_parameters_partition:
  assumes "reversed_layers model = Inr layers"
    and "distinct (map snd (named_members [] model))"
    and "list_all (\<lambda>(n, p). p \<in> set (layer_params layers) \<or> \<not> str_in ''model'' n
               \<or> (\<not> str_in ''model.embeddings'' n \<and> \<not> str_in ''model.encoder.layer'' n))
           (named_parameters model)"
  shows "\<exists>gs. get_optimizer_grouped_parameters model llr dlr wd d = Inr gs
       \<and> mset (concat (map params gs)) = mset (map snd (named_parameters model))
       \<and> distinct (concat (map params gs))"
proof -
  obtain ps ms bps bms emb cps cms ls where
    model: "model = Module ps ms" and
    m: "map_of ms ''model'' = Some (Module bps bms)" and
    e: "map_of bms ''embeddings'' = Some emb" and
    c: "map_of bms ''encoder'' = Some (Module cps cms)" and
    l: "map_of cms ''layer'' = Some (ModuleList ls)" and
    layers: "layers = rev (emb # ls)"
    using reversed_layers_Inr [OF assms(1)] by blast
  define NP where "NP = named_members [] model"
  have np: "named_parameters model = NP"
    unfolding NP_def using assms(2) by (rule named_parameters_distinct)
  have dist: "distinct (map snd NP)"
    using assms(2) by (simp add: NP_def)
  note lp = layer_params_members [OF assms(2) [unfolded model] m e c l, folded layers model NP_def]
  have lp_dist: "distinct (layer_params layers)"
    using lp(2) dist by (rule distinct_mset_subset)
  have lp_set: "set (layer_params layers)
      = snd ` set (named_members ''model.embeddings'' emb)
        \<union> snd ` set (named_members_items ''model.encoder.layer'' 0 ls)"
    unfolding layers layer_params_members(1) [OF assms(2) [unfolded model] m e c l]
    by (rule layer_params_set)
  define inner where "inner = map snd (filter (\<lambda>(n, p). str_in ''model'' n
      \<and> (str_in ''model.embeddings'' n \<or> str_in ''model.encoder.layer'' n)) NP)"
  have inner_dist: "distinct inner"
    unfolding inner_def using dist by (simp add: distinct_map_filter)
  have "set (layer_params layers) = set inner"
  proof (intro equalityI subsetI)
    fix p assume "p \<in> set (layer_params layers)"
    then consider n where "(n, p) \<in> set (named_members ''model.embeddings'' emb)"
      | n where "(n, p) \<in> set (named_members_items ''model.encoder.layer'' 0 ls)"
      unfolding lp_set by force
    then show "p \<in> set inner"
    proof cases
      case 1
      then have "(n, p) \<in> set NP"
        using layers_inside_model(1) [OF m e c l, of ps] by (auto simp add: NP_def model)
      with embeddings_names [OF 1] show ?thesis
        unfolding inner_def by force
    next
      case 2
      then have "(n, p) \<in> set NP"
        using layers_inside_model(2) [OF m e c l, of ps] by (auto simp add: NP_def model)
      with layer_names [OF 2] show ?thesis
        unfolding inner_def by force
    qed
  next
    fix p assume "p \<in> set inner"
    then obtain n where n: "(n, p) \<in> set NP" "str_in ''model'' n"
      "str_in ''model.embeddings'' n \<or> str_in ''model.encoder.layer'' n"
      unfolding inner_def by auto
    then show "p \<in> set (layer_params layers)"
      using assms(3) unfolding np list_all_iff by blast
  qed
  then have inner_eq: "mset (layer_params layers) = mset inner"
    using lp_dist inner_dist by (simp add: set_eq_iff_mset_eq_distinct)
  obtain gs where gs: "get_optimizer_grouped_parameters model llr dlr wd d = Inr gs"
    using grouped_parameters_value [OF assms(1)] by blast
  have "mset (concat (map params gs))
     = mset (map snd (filter (\<lambda>(n, p). \<not> str_in ''model'' n) NP))
       + mset (map snd (filter (\<lambda>(n, p). str_in ''model'' n \<and> \<not> str_in ''model.embeddings'' n
                                \<and> \<not> str_in ''model.encoder.layer'' n) NP))
       + mset inner"
    using mset_grouped_parameters [OF assms(1) gs]
    by (simp only: np extra_params_def inner_eq)
  also have "\<dots> = mset (map snd NP)"
    unfolding inner_def by (rule mset_three_filters)
  finally have part: "mset (concat (map params gs)) = mset (map snd (named_parameters model))"
    by (simp only: np)
  then have "distinct (concat (map params gs))"
    using dist np by (metis mset_eq_imp_distinct_iff)
  with gs part show ?thesis
    by blast
qed

lemmas example_model_defs = deberta_like_def electra_like_def example_encoder_def
  example_embeddings_def example_layer_def

lemmas str_in_eval = str_in_def sublist_code prefix_code any_no_decay_def no_decay_def

lemma deberta_like_members:
  "named_members [] deberta_like =
    [(''model.embeddings.word_embeddings.weight'', 0), (''model.embeddings.LayerNorm.weight'', 1),
     (''model.embeddings.LayerNorm.bias'', 2), (''model.encoder.layer.0.attention.weight'', 3),
     (''model.encoder.layer.0.attention.bias'', 4), (''model.encoder.layer.0.LayerNorm.weight'', 5),
     (''model.encoder.layer.0.LayerNorm.bias'', 6), (''model.encoder.layer.1.attention.weight'', 7),
     (''model.encoder.layer.1.attention.bias'', 8), (''model.encoder.layer.1.LayerNorm.weight'', 9),
     (''model.encoder.layer.1.LayerNorm.bias'', 10), (''model.encoder.rel_embeddings.weight'', 11),
     (''model.encoder.LayerNorm.weight'', 12), (''model.encoder.LayerNorm.bias'', 13),
     (''fc.weight'', 14), (''fc.bias'', 15)]"
  by (simp add: example_model_defs qualname_def str_nat.simps)

lemma electra_like_members:
  "named_members [] electra_like =
    [(''model.embeddings.word_embeddings.weight'', 0), (''model.embeddings.LayerNorm.weight'', 1),
     (''model.embeddings.LayerNorm.bias'', 2), (''model.embeddings_project.weight'', 16),
     (''model.embeddings_project.bias'', 17), (''model.encoder.layer.0.attention.weight'', 3),
     (''model.encoder.layer.0.attention.bias'', 4), (''model.encoder.layer.0.LayerNorm.weight'', 5),
     (''model.encoder.layer.0.LayerNorm.bias'', 6), (''model.encoder.layer.1.attention.weight'', 7),
     (''model.encoder.layer.1.attention.bias'', 8), (''model.encoder.layer.1.LayerNorm.weight'', 9),
     (''model.encoder.layer.1.LayerNorm.bias'', 10), (''model.encoder.rel_embeddings.weight'', 11),
     (''model.encoder.LayerNorm.weight'', 12), (''model.encoder.LayerNorm.bias'', 13),
     (''fc.weight'', 14), (''fc.bias'', 15)]"
  by (simp add: example_model_defs qualname_def str_nat.simps)

lemma example_layers:
  "reversed_layers deberta_like = Inr [example_layer 7, example_layer 3, example_embeddings]"
  "reversed_layers electra_like = Inr [example_layer 7, example_layer 3, example_embeddings]"
  by (simp_all add: reversed_layers_def or_raise_def deberta_like_def electra_like_def
      example_encoder_def)

lemma example_layer_parameters:
  "named_parameters (example_layer k) =
     [(''attention.weight'', k), (''attention.bias'', k + 1),
      (''LayerNorm.weight'', k + 2), (''LayerNorm.bias'', k + 3)]"
  "named_parameters example_embeddings =
     [(''word_embeddings.weight'', 0), (''LayerNorm.weight'', 1), (''LayerNorm.bias'', 2)]"
  by (simp_all add: named_parameters_def example_layer_def example_embeddings_def qualname_def)

lemma example_layer_params:
  "layer_params [example_layer 7, example_layer 3, example_embeddings]
   = [7, 8, 9, 10, 3, 4, 5, 6, 0, 1, 2]"
  by (simp add: layer_params_def example_layer_parameters)

lemma deberta_like_parameters: "named_parameters deberta_like = named_members [] deberta_like"
  by (rule named_parameters_distinct) (simp add: deberta_like_members)

lemma electra_like_parameters: "named_parameters electra_like = named_members [] electra_like"
  by (rule named_parameters_distinct) (simp add: electra_like_members)

lemma example_layer_groups:
  "layer_groups [example_layer 7, example_layer 3, example_embeddings] r wd d =
     [\<lparr>params = [7], weight_decay = wd, lr = Some r\<rparr>,
      \<lparr>params = [8, 9, 10], weight_decay = 0, lr = Some r\<rparr>,
      \<lparr>params = [3], weight_decay = wd, lr = Some (r * d)\<rparr>,
      \<lparr>params = [4, 5, 6], weight_decay = 0, lr = Some (r * d)\<rparr>,
      \<lparr>params = [0], weight_decay = wd, lr = Some (r * d * d)\<rparr>,
      \<lparr>params = [1, 2], weight_decay = 0, lr = Some (r * d * d)\<rparr>]"
  by (simp add: example_layer_parameters decay_params_def no_decay_params_def str_in_eval)

lemma deberta_like_groups:
  "get_optimizer_grouped_parameters deberta_like r dr wd d =
     Inr [\<lparr>params = [14, 15], weight_decay = 0, lr = Some dr\<rparr>,
          \<lparr>params = [11], weight_decay = wd, lr = Some r\<rparr>,
          \<lparr>params = [12, 13], weight_decay = 0, lr = Some r\<rparr>,
          \<lparr>params = [7], weight_decay = wd, lr = Some r\<rparr>,
          \<lparr>params = [8, 9, 10], weight_decay = 0, lr = Some r\<rparr>,
          \<lparr>params = [3], weight_decay = wd, lr = Some (r * d)\<rparr>,
          \<lparr>params = [4, 5, 6], weight_decay = 0, lr = Some (r * d)\<rparr>,
          \<lparr>params = [0], weight_decay = wd, lr = Some (r * d * d)\<rparr>,
          \<lparr>params = [1, 2], weight_decay = 0, lr = Some (r * d * d)\<rparr>]"
  unfolding grouped_parameters_value [OF example_layers(1)] example_layer_groups
  by (simp add: extra_params_def deberta_like_parameters deberta_like_members
      decay_params_def no_decay_params_def str_in_eval)

lemma electra_like_groups:
  "get_optimizer_grouped_parameters electra_like r dr wd d =
     Inr [\<lparr>params = [14, 15], weight_decay = 0, lr = Some dr\<rparr>,
          \<lparr>params = [11], weight_decay = wd, lr = Some r\<rparr>,
          \<lparr>params = [12, 13], weight_decay = 0, lr = Some r\<rparr>,
          \<lparr>params = [7], weight_decay = wd, lr = Some r\<rparr>,
          \<lparr>params = [8, 9, 10], weight_decay = 0, lr = Some r\<rparr>,
          \<lparr>params = [3], weight_decay = wd, lr = Some (r * d)\<rparr>,
          \<lparr>params = [4, 5, 6], weight_decay = 0, lr = Some (r * d)\<rparr>,
          \<lparr>params = [0], weight_decay = wd, lr = Some (r * d * d)\<rparr>,
          \<lparr>params = [1, 2], weight_decay = 0, lr = Some (r * d * d)\<rparr>]"
  unfolding grouped_parameters_value [OF example_layers(2)] example_layer_groups
  by (simp add: extra_params_def electra_like_parameters electra_like_members
      decay_params_def no_decay_params_def str_in_eval)

lemma grouped_parameters_partition_example:
  "reversed_layers deberta_like = Inr [example_layer 7, example_layer 3, example_embeddings]
   \<and> distinct (map snd (named_members [] deberta_like))
   \<and> list_all (\<lambda>(n, p). p \<in> set (layer_params [example_layer 7, example_layer 3, example_embeddings])
                 \<or> \<not> str_in ''model'' n
                 \<or> (\<not> str_in ''model.embeddings'' n \<and> \<not> str_in ''model.encoder.layer'' n))
         (named_parameters deberta_like)
   \<and> (\<exists>gs. get_optimizer_grouped_parameters deberta_like (1 / 50000) (1 / 1000) (1 / 100) (9 / 10)
              = Inr gs
        \<and> mset (concat (map params gs)) = mset (map snd (named_parameters deberta_like))
        \<and> distinct (concat (map params gs)))"
proof -
  have a: "reversed_layers deberta_like
      = Inr [example_layer 7, example_layer 3, example_embeddings]"
    by (rule example_layers(1))
  have b: "distinct (map snd (named_members [] deberta_like))"
    by (simp add: deberta_like_members)
  have c: "list_all (\<lambda>(n, p). p \<in> set (layer_params [example_layer 7, example_layer 3,
                                                        example_embeddings])
                 \<or> \<not> str_in ''model'' n
                 \<or> (\<not> str_in ''model.embeddings'' n \<and> \<not> str_in ''model.encoder.layer'' n))
         (named_parameters deberta_like)"
    unfolding example_layer_params deberta_like_parameters deberta_like_members
    by (simp add: str_in_eval)
  from grouped_parameters_partition [OF a b c, of "1 / 50000" "1 / 1000" "1 / 100" "9 / 10"]
    a b c show ?thesis
    by blast
qed

text \<open>
  Claim C3: the groups hold every parameter of the model exactly once. The miscellaneous
  backbone group is selected by the names that contain neither \<^verbatim>\<open>model.embeddings\<close> nor
  \<^verbatim>\<open>model.encoder.layer\<close>, and the layer groups are read from \<^verbatim>\<open>model.model.embeddings\<close> and
  \<^verbatim>\<open>model.model.encoder.layer\<close>. The block \<^verbatim>\<open>model.embeddings_project\<close> of \<open>electra_like\<close> has
  \<^verbatim>\<open>model.embeddings\<close> in its parameter names and is not part of the embedding block: its
  parameters 16 and 17 are parameters of the model and are in no group.
\<close>

theorem grouped_parameters_omission:
  "map snd (named_parameters electra_like)
     = [0, 1, 2, 16, 17, 3, 4, 5, 6, 7, 8, 9, 10, 11, 12, 13, 14, 15]
   \<and> map params (projr (get_optimizer_grouped_parameters electra_like (1 / 50000) (1 / 1000)
                          (1 / 100) (9 / 10)))
     = [[14, 15], [11], [12, 13], [7], [8, 9, 10], [3], [4, 5, 6], [0], [1, 2]]
   \<and> (''model.embeddings_project.weight'', 16) \<in> set (named_parameters electra_like)
   \<and> 16 \<notin> set (concat (map params (projr (get_optimizer_grouped_parameters electra_like
                          (1 / 50000) (1 / 1000) (1 / 100) (9 / 10)))))"
  by (simp add: electra_like_groups electra_like_parameters electra_like_members)

lemma layer_groups_length:
  "length (layer_groups layers r wd d) = 2 * length layers"
  by (induction layers arbitrary: r) simp_all

lemma layer_groups_nth:
  "k < length layers \<Longrightarrow>
   layer_groups layers r wd d ! (2 * k)
     = \<lparr>params = decay_params (named_parameters (layers ! k)), weight_decay = wd,
        lr = Some (r * d ^ k)\<rparr>
   \<and> layer_groups layers r wd d ! (2 * k + 1)
     = \<lparr>params = no_decay_params (named_parameters (layers ! k)), weight_decay = 0,
        lr = Some (r * d ^ k)\<rparr>"
proof (induction layers arbitrary: r k)
  case Nil
  then show ?case by simp
next
  case (Cons l layers)
  show ?case
  proof (cases k)
    case 0
    then show ?thesis by simp
  next
    case (Suc j)
    then have "j < length layers"
      using Cons.prems by simp
    from Cons.IH [OF this, of "r * d"] show ?thesis
      by (simp add: Suc mult.assoc)
  qed
qed

lemma decayed_rate_le:
  fixes r d :: real
  assumes "0 \<le> r" "0 \<le> d" "d \<le> 1"
  shows "r * d ^ Suc k \<le> r * d ^ k"
proof -
  have "d * d ^ k \<le> 1 * d ^ k"
    using assms by (intro mult_right_mono) simp_all
  then show ?thesis
    using assms(1) by (simp add: mult_left_mono)
qed

text \<open>
  Claim C4, as the code has it. The loop visits the encoder layers from the last to the first
  and then the embedding block. The two groups of the \<open>k\<close>-th visited layer hold that layer's
  parameters with the rate \<open>layerwise_lr * decay ^ k\<close>: the base rate for the top layer, and
  the previous layer's rate times the decay factor for each deeper one. For a decay factor
  between 0 and 1 and a non-negative base rate, the rate does not increase from one layer to
  the next deeper one.
\<close>

theorem layerwise_learning_rates:
  assumes "getattr model ''model'' = Inr backbone"
    and "getattr backbone ''embeddings'' = Inr embeddings"
    and "getattr backbone ''encoder'' = Inr encoder"
    and "getattr encoder ''layer'' = Inr layer"
    and "list_of layer = Inr ls"
  shows "\<exists>gs. get_optimizer_grouped_parameters model base_lr head_lr wd decay = Inr gs
     \<and> length gs = 3 + 2 * length (rev ls @ [embeddings])
     \<and> (\<forall>k<length (rev ls @ [embeddings]).
          params (gs ! (3 + 2 * k)) = decay_params (named_parameters ((rev ls @ [embeddings]) ! k))
        \<and> params (gs ! (4 + 2 * k))
            = no_decay_params (named_parameters ((rev ls @ [embeddings]) ! k))
        \<and> lr (gs ! (3 + 2 * k)) = Some (base_lr * decay ^ k)
        \<and> lr (gs ! (4 + 2 * k)) = Some (base_lr * decay ^ k))
     \<and> (0 \<le> base_lr \<and> 0 \<le> decay \<and> decay \<le> 1 \<longrightarrow>
          (\<forall>k. Suc k < length (rev ls @ [embeddings]) \<longrightarrow>
             the (lr (gs ! (3 + 2 * Suc k))) \<le> the (lr (gs ! (3 + 2 * k)))))"
proof -
  let ?layers = "rev ls @ [embeddings]"
  have rl: "reversed_layers model = Inr ?layers"
    using assms by (simp add: reversed_layers_def or_raise_def)
  note gs = grouped_parameters_value [OF rl, of base_lr head_lr wd decay]
  let ?gs = "[\<lparr>params = map snd (filter (\<lambda>(n, p). \<not> str_in ''model'' n) (named_parameters model)),
             weight_decay = 0, lr = Some head_lr\<rparr>,
           \<lparr>params = decay_params (extra_params model), weight_decay = wd,
             lr = Some base_lr\<rparr>,
           \<lparr>params = no_decay_params (extra_params model), weight_decay = 0,
             lr = Some base_lr\<rparr>]
          @ layer_groups ?layers base_lr wd decay"
  have len: "length ?gs = 3 + 2 * length ?layers"
    by (simp add: layer_groups_length)
  have nth: "params (?gs ! (3 + 2 * k)) = decay_params (named_parameters (?layers ! k))
        \<and> params (?gs ! (4 + 2 * k)) = no_decay_params (named_parameters (?layers ! k))
        \<and> lr (?gs ! (3 + 2 * k)) = Some (base_lr * decay ^ k)
        \<and> lr (?gs ! (4 + 2 * k)) = Some (base_lr * decay ^ k)"
    if "k < length ?layers" for k
  proof -
    have i: "?gs ! (3 + 2 * k) = layer_groups ?layers base_lr wd decay ! (2 * k)"
      "?gs ! (4 + 2 * k) = layer_groups ?layers base_lr wd decay ! (2 * k + 1)"
      by (simp_all add: nth_append numeral_eq_Suc)
    show ?thesis
      unfolding i using layer_groups_nth [OF that, of base_lr wd decay] by simp
  qed
  have mono: "the (lr (?gs ! (3 + 2 * Suc k))) \<le> the (lr (?gs ! (3 + 2 * k)))"
    if "0 \<le> base_lr \<and> 0 \<le> decay \<and> decay \<le> 1" and "Suc k < length ?layers" for k
  proof -
    have "k < length ?layers"
      using that(2) by simp
    then have "the (lr (?gs ! (3 + 2 * k))) = base_lr * decay ^ k"
      using nth [of k] by simp
    moreover have "the (lr (?gs ! (3 + 2 * Suc k))) = base_lr * decay ^ Suc k"
      using nth [OF that(2)] by simp
    ultimately show ?thesis
      using decayed_rate_le [of base_lr decay k] that(1) by simp
  qed
  show ?thesis
  proof (intro exI conjI)
    show "get_optimizer_grouped_parameters model base_lr head_lr wd decay = Inr ?gs"
      by (rule gs)
    show "length ?gs = 3 + 2 * length ?layers"
      by (rule len)
    show "\<forall>k<length ?layers.
          params (?gs ! (3 + 2 * k)) = decay_params (named_parameters (?layers ! k))
        \<and> params (?gs ! (4 + 2 * k)) = no_decay_params (named_parameters (?layers ! k))
        \<and> lr (?gs ! (3 + 2 * k)) = Some (base_lr * decay ^ k)
        \<and> lr (?gs ! (4 + 2 * k)) = Some (base_lr * decay ^ k)"
      using nth by blast
    show "0 \<le> base_lr \<and> 0 \<le> decay \<and> decay \<le> 1 \<longrightarrow>
          (\<forall>k. Suc k < length ?layers \<longrightarrow>
             the (lr (?gs ! (3 + 2 * Suc k))) \<le> the (lr (?gs ! (3 + 2 * k))))"
      using mono by blast
  qed
qed

theorem layerwise_learning_rates_witness:
  "getattr deberta_like ''model''
     = Inr (Module [] [(''embeddings'', example_embeddings), (''encoder'', example_encoder)])
   \<and> getattr (Module [] [(''embeddings'', example_embeddings), (''encoder'', example_encoder)])
       ''embeddings'' = Inr example_embeddings
   \<and> getattr (Module [] [(''embeddings'', example_embeddings), (''encoder'', example_encoder)])
       ''encoder'' = Inr example_encoder
   \<and> getattr example_encoder ''layer'' = Inr (ModuleList [example_layer 3, example_layer 7])
   \<and> list_of (ModuleList [example_layer 3, example_layer 7])
       = Inr [example_layer 3, example_layer 7]
   \<and> (0 :: real) \<le> 1 \<and> (0 :: real) \<le> 9 / 10 \<and> (9 / 10 :: real) \<le> 1
   \<and> (\<exists>gs. get_optimizer_grouped_parameters deberta_like 1 2 (1 / 100) (9 / 10) = Inr gs
        \<and> length gs = 9
        \<and> lr (gs ! 3) = Some 1 \<and> lr (gs ! 4) = Some 1
        \<and> lr (gs ! 5) = Some (9 / 10) \<and> lr (gs ! 6) = Some (9 / 10)
        \<and> lr (gs ! 7) = Some (81 / 100) \<and> lr (gs ! 8) = Some (81 / 100))"
proof -
  let ?backbone = "Module [] [(''embeddings'', example_embeddings), (''encoder'', example_encoder)]"
  have a: "getattr deberta_like ''model'' = Inr ?backbone"
    by (simp add: deberta_like_def)
  have b: "getattr ?backbone ''embeddings'' = Inr example_embeddings"
    by simp
  have c: "getattr ?backbone ''encoder'' = Inr example_encoder"
    by simp
  have d: "getattr example_encoder ''layer'' = Inr (ModuleList [example_layer 3, example_layer 7])"
    by (simp add: example_encoder_def)
  have e: "list_of (ModuleList [example_layer 3, example_layer 7])
       = Inr [example_layer 3, example_layer 7]"
    by simp
  obtain gs where gs: "get_optimizer_grouped_parameters deberta_like 1 2 (1 / 100) (9 / 10) = Inr gs"
    and len: "length gs = 3 + 2 * length (rev [example_layer 3, example_layer 7] @ [example_embeddings])"
    and nth: "\<forall>k<length (rev [example_layer 3, example_layer 7] @ [example_embeddings]).
        lr (gs ! (3 + 2 * k)) = Some (1 * (9 / 10) ^ k)
        \<and> lr (gs ! (4 + 2 * k)) = Some (1 * (9 / 10) ^ k)"
    using layerwise_learning_rates [OF a b c d e, of 1 2 "1 / 100" "9 / 10"] by blast
  have k: "0 < length (rev [example_layer 3, example_layer 7] @ [example_embeddings])"
    "1 < length (rev [example_layer 3, example_layer 7] @ [example_embeddings])"
    "2 < length (rev [example_layer 3, example_layer 7] @ [example_embeddings])"
    by simp_all
  have "lr (gs ! (3 + 2 * 0)) = Some (1 * (9 / 10) ^ 0) \<and> lr (gs ! (4 + 2 * 0)) = Some (1 * (9 / 10) ^ 0)"
    "lr (gs ! (3 + 2 * 1)) = Some (1 * (9 / 10) ^ 1) \<and> lr (gs ! (4 + 2 * 1)) = Some (1 * (9 / 10) ^ 1)"
    "lr (gs ! (3 + 2 * 2)) = Some (1 * (9 / 10) ^ 2) \<and> lr (gs ! (4 + 2 * 2)) = Some (1 * (9 / 10) ^ 2)"
    using nth [rule_format, OF k(1)] nth [rule_format, OF k(2)] nth [rule_format, OF k(3)]
    by blast+
  then have rates: "lr (gs ! 3) = Some 1" "lr (gs ! 4) = Some 1"
    "lr (gs ! 5) = Some (9 / 10)" "lr (gs ! 6) = Some (9 / 10)"
    "lr (gs ! 7) = Some (81 / 100)" "lr (gs ! 8) = Some (81 / 100)"
    by (simp_all add: power2_eq_square)
  have "length gs = 9"
    using len by simp
  moreover have "(0 :: real) \<le> 1" "(0 :: real) \<le> 9 / 10" "(9 / 10 :: real) \<le> 1"
    by simp_all
  ultimately show ?thesis
    using a b c d e gs rates by blast
qed

text \<open>
  Claim C4 promises a non-increasing rate for any decay factor at most 1. With the decay
  factor \<open>-1\<close> the rates of the three layers are 1, \<open>-1\<close> and 1: the embedding block gets a
  larger rate than the layer above it.
\<close>

theorem layerwise_learning_rates_counterexample:
  "map lr (projr (get_optimizer_grouped_parameters deberta_like 1 2 (1 / 100) (- 1)))
     = [Some 2, Some 1, Some 1, Some 1, Some 1, Some (- 1), Some (- 1), Some 1, Some 1]
   \<and> (- 1 :: real) \<le> 1 \<and> \<not> (1 :: real) \<le> - 1"
  by (simp add: deberta_like_groups)

lemma floordiv_eq_floor:
  "b \<noteq> 0 \<Longrightarrow> floordiv a b = Inr \<lfloor>real_of_int a / real_of_int b\<rfloor>"
  by (simp add: floordiv_def floor_divide_of_int_eq)

text \<open>
  Claim C5. When the parameter groups are built and the optimizer accepts them, and the batch
  size times the accumulation steps is not 0, \<^verbatim>\<open>optimizer_setup\<close> passes to the scheduler the
  floor of \<open>epochs * dataset_size / (batch_size * accumulation_steps)\<close> as the number of
  training steps and a tenth of it as the number of warmup steps. (With a product of 0 the
  integer division raises ZeroDivisionError.)
\<close>

theorem optimizer_setup_steps:
  assumes "optimizer_parameters model cfg layerwise = Inr groups"
    and "AdamW groups (learning_rate cfg) True = Inr optimizer"
    and "train_batch_size cfg * n_accumulate cfg \<noteq> 0"
  shows "optimizer_setup AdamW get_linear_schedule_with_warmup model cfg dataset_size layerwise
     = Inr (optimizer,
            get_linear_schedule_with_warmup optimizer
              (1 / 10 * real_of_int (spec_total_steps dataset_size (epochs cfg)
                                       (train_batch_size cfg) (n_accumulate cfg)))
              (spec_total_steps dataset_size (epochs cfg) (train_batch_size cfg)
                 (n_accumulate cfg)))"
  using assms
  by (simp add: optimizer_setup_def or_raise_def floordiv_eq_floor spec_total_steps_def
      mult.commute)

theorem optimizer_setup_steps_witness:
  "optimizer_parameters deberta_like example_config False
     = Inr [\<lparr>params = [0, 3, 7, 11, 14], weight_decay = 1 / 100, lr = None\<rparr>,
            \<lparr>params = [1, 2, 4, 5, 6, 8, 9, 10, 12, 13, 15], weight_decay = 0, lr = None\<rparr>]
   \<and> train_batch_size example_config * n_accumulate example_config \<noteq> 0
   \<and> spec_total_steps 1000 3 10 2 = 150
   \<and> optimizer_setup recording_AdamW recording_schedule deberta_like example_config 1000 False
     = Inr (\<lparr>param_groups =
               [\<lparr>params = [0, 3, 7, 11, 14], weight_decay = 1 / 100, lr = None\<rparr>,
                \<lparr>params = [1, 2, 4, 5, 6, 8, 9, 10, 12, 13, 15], weight_decay = 0,
                  lr = None\<rparr>],
             default_lr = 1 / 50000, correct_bias = True\<rparr>,
            \<lparr>num_warmup_steps = 15, num_training_steps = 150\<rparr>)"
proof -
  let ?groups = "[\<lparr>params = [0, 3, 7, 11, 14], weight_decay = 1 / 100, lr = None\<rparr>,
            \<lparr>params = [1, 2, 4, 5, 6, 8, 9, 10, 12, 13, 15], weight_decay = 0, lr = None\<rparr>]"
  have a: "optimizer_parameters deberta_like example_config False = Inr ?groups"
    by (simp add: optimizer_parameters_def deberta_like_parameters deberta_like_members
        decay_params_def no_decay_params_def str_in_eval example_config_def)
  have b: "recording_AdamW ?groups (learning_rate example_config) True
      = Inr \<lparr>param_groups = ?groups, default_lr = 1 / 50000, correct_bias = True\<rparr>"
    by (simp add: recording_AdamW_def example_config_def)
  have c: "train_batch_size example_config * n_accumulate example_config \<noteq> 0"
    by (simp add: example_config_def)
  have s: "spec_total_steps 1000 3 10 2 = 150"
    by (simp add: spec_total_steps_def)
  have "optimizer_setup recording_AdamW recording_schedule deberta_like example_config 1000 False
     = Inr (\<lparr>param_groups = ?groups, default_lr = 1 / 50000, correct_bias = True\<rparr>,
            \<lparr>num_warmup_steps = 15, num_training_steps = 150\<rparr>)"
    unfolding optimizer_setup_steps [where AdamW = recording_AdamW
        and get_linear_schedule_with_warmup = recording_schedule and dataset_size = 1000,
        OF a b c]
    by (simp add: example_config_def s recording_schedule_def)
  with a c s show ?thesis
    by blast
qed


section \<open>Properties of the dataset\<close>

lemma df_column_length:
  "wf_dataframe d \<Longrightarrow> df_column d k = Inr col \<Longrightarrow> length col = n_rows d"
  by (auto simp add: wf_dataframe_def df_column_def list_all_iff split: option.splits
      dest!: map_of_SomeD)

lemma df_columns_length:
  "df_columns d ks = Inr cols \<Longrightarrow> length cols = length ks"
  by (induction ks arbitrary: cols) (auto simp add: or_raise_def split: sum.splits)

lemma np_getitem_valid:
  "0 \<le> i \<Longrightarrow> i < int (length a) \<Longrightarrow> np_getitem a i = Inr (a ! nat i)"
  by (simp add: np_getitem_def Let_def)

lemma df_values_row:
  assumes "df_values d target_label = Inr tg" and "0 \<le> i" and "i < int (n_rows d)"
  shows "\<exists>ks t. target_label = Some ks \<and> np_getitem tg i = Inr t \<and> length t = length ks"
proof -
  obtain ks where ks: "target_label = Some ks"
    using assms(1) by (cases target_label) (simp_all add: df_values_def)
  obtain cols where cols: "df_columns d ks = Inr cols"
    and tg: "tg = map (\<lambda>i. map (\<lambda>col. col ! i) cols) [0..<n_rows d]"
    using assms(1) ks by (auto simp add: df_values_def or_raise_def split: sum.splits)
  have len: "length tg = n_rows d"
    by (simp add: tg)
  have "np_getitem tg i = Inr (tg ! nat i)"
    using assms(2,3) len by (intro np_getitem_valid) simp_all
  moreover have "length (tg ! nat i) = length ks"
    using assms(2,3) df_columns_length [OF cols] by (simp add: tg)
  ultimately show ?thesis
    using ks by blast
qed

text \<open>
  Claim C7. For a valid index and a text that the tokenizer accepts, the example of a dataset
  built in inference mode has no \<^verbatim>\<open>target\<close> entry, and the example of a dataset built in
  training mode has a \<^verbatim>\<open>target\<close> entry with one value for each configured target column (six
  for the six columns of the competition).
\<close>

theorem getitem_target:
  assumes "wf_dataframe d"
    and "FeedBackDataset d tok max_length target_label tm = Inr ds"
    and "0 \<le> i" and "i < int (n_rows d)"
    and "tok (texts ds ! nat i) max_length = Inr enc"
  shows "\<exists>ex. getitem ds i = Inr ex
     \<and> (\<not> tm \<longrightarrow> map_of ex ''target'' = None)
     \<and> (tm \<longrightarrow> (\<exists>ks t. target_label = Some ks \<and> map_of ex ''target'' = Some (Row t)
                  \<and> length t = length ks))"
proof -
  obtain txts where txts: "df_column d ''full_text'' = Inr txts"
    using assms(2) by (cases "df_column d ''full_text''") (simp_all add: FeedBackDataset_def or_raise_def)
  have len: "length txts = n_rows d"
    using assms(1) txts by (rule df_column_length)
  have tx: "np_getitem txts i = Inr (txts ! nat i)"
    using assms(3,4) len by (intro np_getitem_valid) simp_all
  show ?thesis
  proof (cases tm)
    case False
    then have ds: "ds = \<lparr>df = d, max_len = max_length, tokenizer = tok, texts = txts,
                 train_mode = False, targets = None\<rparr>"
      using assms(2) txts by (simp add: FeedBackDataset_def or_raise_def)
    have "getitem ds i = Inr [(''input_ids'', Ints (fst enc)), (''attention_mask'', Ints (snd enc))]"
      using assms(5) tx by (simp add: ds getitem_def or_raise_def)
    then show ?thesis
      using False by simp
  next
    case True
    then obtain tg where tg: "df_values d target_label = Inr tg"
      and ds: "ds = \<lparr>df = d, max_len = max_length, tokenizer = tok, texts = txts,
                 train_mode = True, targets = Some tg\<rparr>"
      using assms(2) txts
      by (cases "df_values d target_label") (simp_all add: FeedBackDataset_def or_raise_def)
    obtain ks t where kt: "target_label = Some ks" "np_getitem tg i = Inr t" "length t = length ks"
      using df_values_row [OF tg assms(3,4)] by blast
    have "getitem ds i = Inr [(''input_ids'', Ints (fst enc)), (''attention_mask'', Ints (snd enc)),
        (''target'', Row t)]"
      using assms(5) tx kt(2) by (simp add: ds getitem_def or_raise_def)
    then show ?thesis
      using True kt by simp
  qed
qed

theorem getitem_target_witness:
  "wf_dataframe example_dataframe
   \<and> FeedBackDataset example_dataframe example_tokenizer 4 (Some target_columns) True
       = Inr \<lparr>df = example_dataframe, max_len = 4, tokenizer = example_tokenizer,
              texts = [Str ''I think'', Str ''We went''], train_mode = True,
              targets = Some [[Num 3, Num 3, Num (5 / 2), Num 3, Num 4, Num 3],
                              [Num 4, Num (7 / 2), Num 4, Num 3, Num 2, Num (9 / 2)]]\<rparr>
   \<and> FeedBackDataset example_dataframe example_tokenizer 4 None False
       = Inr \<lparr>df = example_dataframe, max_len = 4, tokenizer = example_tokenizer,
              texts = [Str ''I think'', Str ''We went''], train_mode = False, targets = None\<rparr>
   \<and> (0 :: int) \<le> 1 \<and> (1 :: int) < int (n_rows example_dataframe)
   \<and> example_tokenizer (Str ''We went'') 4 = Inr ([101, 87, 101, 32], [1, 1, 1, 1])
   \<and> (\<exists>ex t. getitem \<lparr>df = example_dataframe, max_len = 4, tokenizer = example_tokenizer,
              texts = [Str ''I think'', Str ''We went''], train_mode = True,
              targets = Some [[Num 3, Num 3, Num (5 / 2), Num 3, Num 4, Num 3],
                              [Num 4, Num (7 / 2), Num 4, Num 3, Num 2, Num (9 / 2)]]\<rparr> 1 = Inr ex
          \<and> map_of ex ''target'' = Some (Row t) \<and> length t = 6)
   \<and> (\<exists>ex. getitem \<lparr>df = example_dataframe, max_len = 4, tokenizer = example_tokenizer,
              texts = [Str ''I think'', Str ''We went''], train_mode = False, targets = None\<rparr> 1
            = Inr ex
          \<and> map_of ex ''target'' = None)"
proof -
  let ?train = "\<lparr>df = example_dataframe, max_len = 4, tokenizer = example_tokenizer,
              texts = [Str ''I think'', Str ''We went''], train_mode = True,
              targets = Some [[Num 3, Num 3, Num (5 / 2), Num 3, Num 4, Num 3],
                              [Num 4, Num (7 / 2), Num 4, Num 3, Num 2, Num (9 / 2)]]\<rparr>"
  let ?infer = "\<lparr>df = example_dataframe, max_len = 4, tokenizer = example_tokenizer,
              texts = [Str ''I think'', Str ''We went''], train_mode = False, targets = None\<rparr>"
  have wf: "wf_dataframe example_dataframe"
    by (simp add: wf_dataframe_def example_dataframe_def)
  have tr: "FeedBackDataset example_dataframe example_tokenizer 4 (Some target_columns) True
       = Inr ?train"
    by (simp add: FeedBackDataset_def df_values_def df_column_def or_raise_def target_columns_def
        example_dataframe_def upt_rec)
  have inf: "FeedBackDataset example_dataframe example_tokenizer 4 None False = Inr ?infer"
    by (simp add: FeedBackDataset_def df_column_def or_raise_def example_dataframe_def)
  have i: "(0 :: int) \<le> 1" "(1 :: int) < int (n_rows example_dataframe)"
    by (simp_all add: example_dataframe_def)
  have tok: "example_tokenizer (Str ''We went'') 4 = Inr ([101, 87, 101, 32], [1, 1, 1, 1])"
    by (simp add: example_tokenizer_def numeral_eq_Suc)
  have tok1: "example_tokenizer (texts ?train ! nat 1) 4 = Inr ([101, 87, 101, 32], [1, 1, 1, 1])"
    "example_tokenizer (texts ?infer ! nat 1) 4 = Inr ([101, 87, 101, 32], [1, 1, 1, 1])"
    using tok by simp_all
  have "\<exists>ex ks t. getitem ?train 1 = Inr ex \<and> Some target_columns = Some ks
      \<and> map_of ex ''target'' = Some (Row t) \<and> length t = length ks"
    using getitem_target [OF wf tr i tok1(1)] by blast
  then have a: "\<exists>ex t. getitem ?train 1 = Inr ex \<and> map_of ex ''target'' = Some (Row t)
      \<and> length t = 6"
    by (auto simp add: target_columns_def)
  have b: "\<exists>ex. getitem ?infer 1 = Inr ex \<and> map_of ex ''target'' = None"
    using getitem_target [OF wf inf i tok1(2)] by blast
  from wf tr inf i tok a b show ?thesis
    by blast
qed

end
